theory Spec2Isabelle
  imports Complex_Main "HOL-Library.Sublist"
begin

section \<open>JavaScript values\<close>

text \<open>
  The gateway is JavaScript. The values that reach the code under study are the ones
  \<^verbatim>\<open>JSON.parse\<close> and the HTTP client hand over, plus \<^verbatim>\<open>undefined\<close> for a
  property that is missing. A number is a rational or one of the two infinities that an
  overflowing literal parses to. A string is its sequence of bytes (UTF-8).
\<close>

datatype jsnum = Finite rat | PosInfinity | NegInfinity

datatype jsval =
    JUndefined
  | JNull
  | JBool bool
  | JNum jsnum
  | JStr string
  | JArr "jsval list"
  | JObj "(string \<times> jsval) list"

text \<open>An error object, with the three fields the handlers inspect; \<open>multer\<close> says
  whether it is an instance of the upload library's error class.\<close>

record js_error =
  name :: string
  code :: "string option"
  message :: string
  multer :: bool

text \<open>What a \<^verbatim>\<open>throw\<close> or a rejected promise carries.\<close>

datatype thrown = TypeError | SyntaxError | Rejected js_error

text \<open>Truthiness, as \<^verbatim>\<open>&&\<close>, \<^verbatim>\<open>||\<close> and \<^verbatim>\<open>if\<close> see it.\<close>

fun truthy :: "jsval \<Rightarrow> bool" where
  "truthy JUndefined = False"
| "truthy JNull = False"
| "truthy (JBool b) = b"
| "truthy (JNum n) = (n \<noteq> Finite 0)"
| "truthy (JStr s) = (s \<noteq> [])"
| "truthy (JArr xs) = True"
| "truthy (JObj ps) = True"

text \<open>
  Property read \<^verbatim>\<open>v.k\<close>, for the keys the code reads (\<^verbatim>\<open>recipes\<close>,
  \<^verbatim>\<open>nutrition\<close>, \<^verbatim>\<open>storageTips\<close>, \<^verbatim>\<open>calories\<close>, \<^verbatim>\<open>choices\<close>,
  \<^verbatim>\<open>message\<close>, \<^verbatim>\<open>content\<close>, \<^verbatim>\<open>response\<close>): none of them is a member of
  a built-in prototype, so only an object's own properties answer. Reading a property
  of \<^verbatim>\<open>null\<close> or \<^verbatim>\<open>undefined\<close> throws.
\<close>

fun get_prop :: "jsval \<Rightarrow> string \<Rightarrow> thrown + jsval" where
  "get_prop JUndefined k = Inl TypeError"
| "get_prop JNull k = Inl TypeError"
| "get_prop (JObj ps) k = Inr (case map_of ps k of Some v \<Rightarrow> v | None \<Rightarrow> JUndefined)"
| "get_prop v k = Inr JUndefined"

text \<open>Index read \<^verbatim>\<open>v[0]\<close>.\<close>

fun get_index0 :: "jsval \<Rightarrow> thrown + jsval" where
  "get_index0 JUndefined = Inl TypeError"
| "get_index0 JNull = Inl TypeError"
| "get_index0 (JArr xs) = Inr (case xs of [] \<Rightarrow> JUndefined | x # _ \<Rightarrow> x)"
| "get_index0 (JStr s) = Inr (case s of [] \<Rightarrow> JUndefined | c # _ \<Rightarrow> JStr [c])"
| "get_index0 (JObj ps) = Inr (case map_of ps ''0'' of Some v \<Rightarrow> v | None \<Rightarrow> JUndefined)"
| "get_index0 v = Inr JUndefined"

subsection \<open>Strings\<close>

definition toLowerChar :: "char \<Rightarrow> char" where
  "toLowerChar c =
     (case map_of (zip ''ABCDEFGHIJKLMNOPQRSTUVWXYZ'' ''abcdefghijklmnopqrstuvwxyz'') c of
        Some d \<Rightarrow> d
      | None \<Rightarrow> c)"

text \<open>
  \<^verbatim>\<open>s.toLowerCase()\<close> on the ASCII letters; other bytes stay. The characters
  outside ASCII that JavaScript maps to an ASCII letter give \<^verbatim>\<open>k\<close> and \<^verbatim>\<open>i\<close>
  only, and neither occurs in a marker the parser looks for or in a hexadecimal digit.
\<close>

definition toLowerCase :: "string \<Rightarrow> string" where
  "toLowerCase s = map toLowerChar s"

text \<open>\<^verbatim>\<open>s.includes(t)\<close> on strings: \<open>t\<close> occurs in \<open>s\<close> as a contiguous run.\<close>

fun includes_str :: "string \<Rightarrow> string \<Rightarrow> bool" where
  "includes_str [] t = (t = [])"
| "includes_str (c # cs) t = (prefix t (c # cs) \<or> includes_str cs t)"

definition newline :: char where
  "newline = CHR 0x0A"

definition skip_newline :: "string \<Rightarrow> string" where
  "skip_newline s = (case s of [] \<Rightarrow> [] | c # cs \<Rightarrow> if c = newline then cs else s)"

text \<open>
  \<^verbatim>\<open>s.replace(/PAT\n?/g, '')\<close> for a literal, non-empty \<open>PAT\<close>: every occurrence,
  found left to right, is removed together with one newline that follows it.
\<close>

function remove_fence :: "string \<Rightarrow> string \<Rightarrow> string" where
  "remove_fence pat [] = []"
| "remove_fence pat (c # cs) =
     (if pat \<noteq> [] \<and> prefix pat (c # cs)
      then remove_fence pat (skip_newline (drop (length pat - 1) cs))
      else c # remove_fence pat cs)"
  by pat_completeness auto
termination
proof (relation "measure (\<lambda>(pat, s). length s)")
  show "wf (measure (\<lambda>(pat, s). length s))" by simp
next
  fix pat :: string and c :: char and cs :: string
  assume "pat \<noteq> [] \<and> prefix pat (c # cs)"
  have "length (skip_newline t) \<le> length t" for t
    by (cases t) (simp_all add: skip_newline_def)
  then have "length (skip_newline (drop (length pat - 1) cs)) \<le> length (drop (length pat - 1) cs)" .
  also have "\<dots> \<le> length cs" by simp
  finally show "((pat, skip_newline (drop (length pat - 1) cs)), (pat, c # cs))
      \<in> measure (\<lambda>(pat, s). length s)" by simp
next
  fix pat :: string and c :: char and cs :: string
  show "((pat, cs), (pat, c # cs)) \<in> measure (\<lambda>(pat, s). length s)" by simp
qed

definition is_space :: "char \<Rightarrow> bool" where
  "is_space c = (c \<in> set [CHR '' '', CHR 0x09, CHR 0x0A, CHR 0x0B, CHR 0x0C, CHR 0x0D])"

text \<open>\<^verbatim>\<open>s.trim()\<close>, on the ASCII white space.\<close>

definition trim :: "string \<Rightarrow> string" where
  "trim s = rev (dropWhile is_space (rev (dropWhile is_space s)))"

text \<open>
  \<^verbatim>\<open>s.match(/\{[\s\S]*\}/)\<close>: the star is greedy, so the match runs from the first
  opening brace to the last closing brace after it; no such pair, no match.
\<close>

definition match_braces :: "string \<Rightarrow> string option" where
  "match_braces s =
     (case dropWhile (\<lambda>c. c \<noteq> CHR ''{'') s of
        [] \<Rightarrow> None
      | b # rest \<Rightarrow>
          (case dropWhile (\<lambda>c. c \<noteq> CHR ''}'') (rev rest) of
             [] \<Rightarrow> None
           | r \<Rightarrow> Some (b # rev r)))"

text \<open>
  \<^verbatim>\<open>String(v)\<close>. A number is printed by the runtime (\<open>nf\<close>). An array joins the
  texts of its elements with commas, \<^verbatim>\<open>null\<close> and \<^verbatim>\<open>undefined\<close> printing as
  nothing. A plain object prints as \<^verbatim>\<open>[object Object]\<close>, unless it has an own
  \<^verbatim>\<open>toString\<close> property: a parsed value is never callable, and the conversion throws.
\<close>

fun ToString :: "(rat \<Rightarrow> string) \<Rightarrow> jsval \<Rightarrow> thrown + string"
  and join_elems :: "(rat \<Rightarrow> string) \<Rightarrow> jsval list \<Rightarrow> thrown + string"
  and elem_text :: "(rat \<Rightarrow> string) \<Rightarrow> jsval \<Rightarrow> thrown + string" where
  "ToString nf JUndefined = Inr ''undefined''"
| "ToString nf JNull = Inr ''null''"
| "ToString nf (JBool b) = Inr (if b then ''true'' else ''false'')"
| "ToString nf (JNum n) =
     Inr (case n of Finite q \<Rightarrow> nf q | PosInfinity \<Rightarrow> ''Infinity'' | NegInfinity \<Rightarrow> ''-Infinity'')"
| "ToString nf (JStr s) = Inr s"
| "ToString nf (JArr xs) = join_elems nf xs"
| "ToString nf (JObj ps) =
     (if ''toString'' \<in> set (map fst ps) then Inl TypeError else Inr ''[object Object]'')"
| "join_elems nf [] = Inr []"
| "join_elems nf [x] = elem_text nf x"
| "join_elems nf (x # y # ys) =
     (case elem_text nf x of
        Inl e \<Rightarrow> Inl e
      | Inr a \<Rightarrow> (case join_elems nf (y # ys) of Inl e \<Rightarrow> Inl e | Inr b \<Rightarrow> Inr (a @ '','' @ b)))"
| "elem_text nf JUndefined = Inr []"
| "elem_text nf JNull = Inr []"
| "elem_text nf (JBool b) = ToString nf (JBool b)"
| "elem_text nf (JNum n) = ToString nf (JNum n)"
| "elem_text nf (JStr s) = ToString nf (JStr s)"
| "elem_text nf (JArr xs) = ToString nf (JArr xs)"
| "elem_text nf (JObj ps) = ToString nf (JObj ps)"

section \<open>Recommendations and the catalog\<close>

text \<open>
  A recommendation as the gateway returns it. The parser passes the model's
  \<^verbatim>\<open>nutrition\<close> value on as it came and wraps a recipe value that is not a list,
  so both fields hold parsed values.
\<close>

record recommendation =
  recipes :: "jsval list"
  nutrition :: jsval
  storageTips :: string

text \<open>\<^verbatim>\<open>getFallbackRecommendation\<close>: the generic record.\<close>

definition getFallbackRecommendation :: recommendation where
  "getFallbackRecommendation =
     \<lparr>recipes = [JStr ''Rekomendasi tidak tersedia saat ini''],
      nutrition = JObj [(''info'', JStr ''Informasi nutrisi tidak tersedia'')],
      storageTips = ''Simpan di tempat sejuk dan kering''\<rparr>"

definition entry :: "string list \<Rightarrow> string \<Rightarrow> string list \<Rightarrow> string list \<Rightarrow> string \<Rightarrow> recommendation" where
  "entry rs cal vits bens tips =
     \<lparr>recipes = map JStr rs,
      nutrition = JObj [(''calories'', JStr cal), (''vitamins'', JArr (map JStr vits)),
                        (''benefits'', JArr (map JStr bens))],
      storageTips = tips\<rparr>"

text \<open>The object literal \<^verbatim>\<open>defaults\<close> of \<^verbatim>\<open>getDefaultRecommendation\<close>.\<close>

definition defaults :: "(string \<times> recommendation) list" where
  "defaults =
   [(''Bean'', entry [''Tumis Buncis Bawang Putih'', ''Sayur Asem Buncis'', ''Oseng Buncis Tempe'']
       ''31 kkal/100g'' [''Vitamin C'', ''Vitamin K'', ''Vitamin A'']
       [''Kaya serat'', ''Baik untuk pencernaan'', ''Menjaga kesehatan tulang'']
       ''Simpan di kulkas dalam kantong plastik berlubang, tahan 5-7 hari''),
    (''Carrot'', entry [''Sup Wortel Ayam'', ''Tumis Wortel Telur'', ''Jus Wortel Jeruk'']
       ''41 kkal/100g'' [''Vitamin A'', ''Beta Karoten'', ''Vitamin K'']
       [''Baik untuk kesehatan mata'', ''Kaya antioksidan'', ''Meningkatkan imunitas'']
       ''Simpan di kulkas tanpa daun, tahan 2-3 minggu''),
    (''Broccoli'', entry [''Tumis Brokoli Bawang Putih'', ''Sup Krim Brokoli'', ''Brokoli Saus Tiram'']
       ''34 kkal/100g'' [''Vitamin C'', ''Vitamin K'', ''Folat'']
       [''Kaya antioksidan'', ''Mencegah kanker'', ''Baik untuk jantung'']
       ''Simpan di kulkas dalam kantong plastik, tahan 3-5 hari''),
    (''Cabbage'', entry [''Tumis Kol Telur'', ''Sayur Sop Kol'', ''Asinan Kol'']
       ''25 kkal/100g'' [''Vitamin C'', ''Vitamin K'', ''Vitamin B6'']
       [''Rendah kalori'', ''Baik untuk pencernaan'', ''Kaya serat'']
       ''Simpan di kulkas utuh, tahan 1-2 minggu''),
    (''Capsicum'', entry [''Tumis Paprika Warna-warni'', ''Paprika Isi Daging'', ''Salad Paprika Segar'']
       ''31 kkal/100g'' [''Vitamin C'', ''Vitamin A'', ''Vitamin B6'']
       [''Kaya antioksidan'', ''Meningkatkan imunitas'', ''Baik untuk kulit'']
       ''Simpan di kulkas dalam kantong plastik, tahan 1-2 minggu''),
    (''Cauliflower'', entry [''Tumis Kembang Kol'', ''Sup Kembang Kol'', ''Kembang Kol Goreng Tepung'']
       ''25 kkal/100g'' [''Vitamin C'', ''Vitamin K'', ''Folat'']
       [''Rendah kalori'', ''Kaya serat'', ''Baik untuk otak'']
       ''Simpan di kulkas dalam kantong plastik, tahan 4-7 hari''),
    (''Cucumber'', entry [''Acar Timun'', ''Salad Timun Segar'', ''Timun Serut Sambal'']
       ''15 kkal/100g'' [''Vitamin K'', ''Vitamin C'', ''Kalium'']
       [''Menghidrasi tubuh'', ''Rendah kalori'', ''Menyegarkan'']
       ''Simpan di kulkas, tahan 1 minggu''),
    (''Tomato'', entry [''Sambal Tomat'', ''Sup Tomat'', ''Tumis Tomat Telur'']
       ''18 kkal/100g'' [''Vitamin C'', ''Vitamin A'', ''Likopen'']
       [''Kaya antioksidan'', ''Baik untuk jantung'', ''Menjaga kesehatan kulit'']
       ''Simpan di suhu ruang jika belum matang, di kulkas jika sudah matang''),
    (''Potato'', entry [''Kentang Goreng'', ''Perkedel Kentang'', ''Sup Kentang'']
       ''77 kkal/100g'' [''Vitamin C'', ''Vitamin B6'', ''Kalium'']
       [''Sumber karbohidrat'', ''Mengenyangkan'', ''Kaya kalium'']
       ''Simpan di tempat gelap dan sejuk, hindari kulkas''),
    (''Pumpkin'', entry [''Kolak Labu'', ''Sup Labu Kuning'', ''Tumis Labu'']
       ''26 kkal/100g'' [''Vitamin A'', ''Vitamin C'', ''Beta Karoten'']
       [''Baik untuk mata'', ''Kaya serat'', ''Meningkatkan imunitas'']
       ''Simpan utuh di tempat sejuk, tahan berminggu-minggu''),
    (''Radish'', entry [''Acar Lobak'', ''Sup Lobak'', ''Tumis Lobak'']
       ''16 kkal/100g'' [''Vitamin C'', ''Folat'', ''Kalium'']
       [''Rendah kalori'', ''Baik untuk pencernaan'', ''Detoksifikasi'']
       ''Simpan di kulkas tanpa daun, tahan 1-2 minggu''),
    (''Brinjal'', entry [''Terong Balado'', ''Terong Goreng'', ''Tumis Terong'']
       ''25 kkal/100g'' [''Vitamin B1'', ''Vitamin B6'', ''Kalium'']
       [''Rendah kalori'', ''Kaya serat'', ''Baik untuk jantung'']
       ''Simpan di kulkas, tahan 4-5 hari''),
    (''Bitter_Gourd'', entry [''Tumis Pare'', ''Pare Isi'', ''Keripik Pare'']
       ''17 kkal/100g'' [''Vitamin C'', ''Vitamin A'', ''Folat'']
       [''Menurunkan gula darah'', ''Kaya antioksidan'', ''Baik untuk diabetes'']
       ''Simpan di kulkas dalam kantong plastik, tahan 4-5 hari''),
    (''Bottle_Gourd'', entry [''Sayur Labu Air'', ''Tumis Labu Air'', ''Sup Labu Air'']
       ''14 kkal/100g'' [''Vitamin C'', ''Vitamin B'', ''Kalsium'']
       [''Rendah kalori'', ''Menghidrasi'', ''Baik untuk pencernaan'']
       ''Simpan di kulkas, tahan 1-2 minggu''),
    (''Papaya'', entry [''Tumis Pepaya Muda'', ''Sup Pepaya'', ''Salad Pepaya'']
       ''43 kkal/100g'' [''Vitamin C'', ''Vitamin A'', ''Folat'']
       [''Baik untuk pencernaan'', ''Kaya enzim papain'', ''Meningkatkan imunitas'']
       ''Simpan di suhu ruang sampai matang, lalu di kulkas'')]"

text \<open>
  \<^verbatim>\<open>defaults\<close> is a plain object, so \<^verbatim>\<open>defaults[vegetableName]\<close> also finds the
  members every object inherits from \<^verbatim>\<open>Object.prototype\<close>; each of them is a
  function or an object, hence truthy.
\<close>

definition Object_prototype_keys :: "string list" where
  "Object_prototype_keys =
     [''constructor'', ''hasOwnProperty'', ''isPrototypeOf'', ''propertyIsEnumerable'',
      ''toLocaleString'', ''toString'', ''valueOf'', ''__proto__'',
      ''__defineGetter__'', ''__defineSetter__'', ''__lookupGetter__'', ''__lookupSetter__'']"

text \<open>What a caller of the recommendation functions can get back: a recommendation
  record, or the inherited member that a lookup found under the given key.\<close>

datatype reco_value = Reco recommendation | ProtoMember string

text \<open>\<^verbatim>\<open>getDefaultRecommendation\<close>: \<^verbatim>\<open>defaults[vegetableName] || getFallbackRecommendation()\<close>.\<close>

definition getDefaultRecommendation :: "string \<Rightarrow> reco_value" where
  "getDefaultRecommendation vegetableName =
     (case map_of defaults vegetableName of
        Some r \<Rightarrow> Reco r
      | None \<Rightarrow>
          if vegetableName \<in> set Object_prototype_keys then ProtoMember vegetableName
          else Reco getFallbackRecommendation)"

section \<open>The runtime and the outside world\<close>

datatype provider = Groq | Ollama

text \<open>The uploaded file as the upload middleware sees it, and the answer of the
  classification backend (\<^verbatim>\<open>predicted_class\<close>, \<^verbatim>\<open>confidence\<close>, \<^verbatim>\<open>top_3\<close>).\<close>

record upload_file =
  originalname :: string
  mimetype :: string
  size :: nat

record prediction =
  pred_class :: string
  pred_confidence :: rat
  pred_top_3 :: "(string \<times> rat) list"

text \<open>
  What the code calls and does not define: \<^verbatim>\<open>JSON.parse\<close> (\<open>None\<close> when it throws
  a syntax error), the printing of a number, the HTTP request to the generation
  backend, which answers with the body of the response or fails (time-out, refusal, any
  transport error), and the HTTP request to the classification backend. A generation
  request is fixed by the provider and the subject label, the prompt being built from
  the label.
\<close>

record runtime =
  JSON_parse :: "string \<Rightarrow> jsval option"
  Number_toString :: "rat \<Rightarrow> string"
  axios_post :: "provider \<Rightarrow> string \<Rightarrow> js_error + jsval"
  ml_post :: "upload_file \<Rightarrow> js_error + prediction"

text \<open>The environment variables the code reads (\<open>None\<close>: not set).\<close>

record process_env =
  LLM_PROVIDER :: "string option"
  GROQ_API_KEY :: "string option"
  SKIP_LLM :: "string option"
  OLLAMA_URL :: "string option"
  NODE_ENV :: "string option"

text \<open>What a run does besides returning, in order.\<close>

datatype event =
    ClassificationRequest string
  | GenerationRequest provider string
  | CatalogLookup string
  | StorageQuery string
  | ConsoleError string

section \<open>Response parser\<close>

text \<open>The callback of \<^verbatim>\<open>recipes.some\<close>: \<^verbatim>\<open>r.toLowerCase()\<close> exists on strings only.\<close>

fun recipe_is_template :: "jsval \<Rightarrow> thrown + bool" where
  "recipe_is_template (JStr r) =
     Inr (includes_str (toLowerCase r) ''resep 1'' \<or> includes_str (toLowerCase r) ''nama resep'')"
| "recipe_is_template v = Inl TypeError"

text \<open>\<^verbatim>\<open>xs.some(f)\<close>: stops at the first element that satisfies \<open>f\<close>, or that throws.\<close>

fun array_some :: "('a \<Rightarrow> thrown + bool) \<Rightarrow> 'a list \<Rightarrow> thrown + bool" where
  "array_some f [] = Inr False"
| "array_some f (x # xs) =
     (case f x of
        Inl e \<Rightarrow> Inl e
      | Inr b \<Rightarrow> if b then Inr True else array_some f xs)"

text \<open>\<^verbatim>\<open>c.includes('XX')\<close> for a truthy \<open>c\<close>: a substring test on a string, a
  membership test on an array, and no such method on anything else.\<close>

fun calories_includes_XX :: "jsval \<Rightarrow> thrown + bool" where
  "calories_includes_XX (JStr s) = Inr (includes_str s ''XX'')"
| "calories_includes_XX (JArr xs) = Inr (JStr ''XX'' \<in> set xs)"
| "calories_includes_XX v = Inl TypeError"

text \<open>\<^verbatim>\<open>Array.isArray(parsed.recipes) && parsed.recipes.some(...)\<close>\<close>

definition recipes_check :: "jsval \<Rightarrow> thrown + bool" where
  "recipes_check rcp =
     (case rcp of JArr rs \<Rightarrow> array_some recipe_is_template rs | _ \<Rightarrow> Inr False)"

text \<open>\<^verbatim>\<open>parsed.nutrition.calories && parsed.nutrition.calories.includes('XX')\<close>\<close>

definition calories_check :: "jsval \<Rightarrow> thrown + bool" where
  "calories_check nut =
     (case get_prop nut ''calories'' of
        Inl e \<Rightarrow> Inl e
      | Inr c \<Rightarrow> if truthy c then calories_includes_XX c else Inr False)"

text \<open>The two checks joined by \<^verbatim>\<open>||\<close>: the second runs only if the first is false.\<close>

definition isPlaceholder :: "jsval \<Rightarrow> jsval \<Rightarrow> thrown + bool" where
  "isPlaceholder rcp nut =
     (case recipes_check rcp of
        Inl e \<Rightarrow> Inl e
      | Inr b \<Rightarrow> if b then Inr True else calories_check nut)"

definition clean_response :: "string \<Rightarrow> string" where
  "clean_response response = trim (remove_fence ''```'' (remove_fence ''```json'' response))"

text \<open>
  The inner \<^verbatim>\<open>if\<close> of \<^verbatim>\<open>parseRecommendation\<close>, on the parsed value. \<open>Inr None\<close>:
  a field is missing or falsy and control falls through to the end of the function.
\<close>

definition check_parsed ::
  "runtime \<Rightarrow> jsval \<Rightarrow> string \<Rightarrow> thrown + (reco_value \<times> event list) option" where
  "check_parsed rt parsed vegetableName =
     (case get_prop parsed ''recipes'' of
        Inl e \<Rightarrow> Inl e
      | Inr rcp \<Rightarrow>
          if \<not> truthy rcp then Inr None
          else (case get_prop parsed ''nutrition'' of
            Inl e \<Rightarrow> Inl e
          | Inr nut \<Rightarrow>
              if \<not> truthy nut then Inr None
              else (case get_prop parsed ''storageTips'' of
                Inl e \<Rightarrow> Inl e
              | Inr tips \<Rightarrow>
                  if \<not> truthy tips then Inr None
                  else (case isPlaceholder rcp nut of
                    Inl e \<Rightarrow> Inl e
                  | Inr ph \<Rightarrow>
                      if ph
                      then Inr (Some (getDefaultRecommendation vegetableName,
                                      [CatalogLookup vegetableName]))
                      else (case ToString (Number_toString rt) tips of
                        Inl e \<Rightarrow> Inl e
                      | Inr t \<Rightarrow>
                          Inr (Some (Reco \<lparr>recipes = (case rcp of JArr rs \<Rightarrow> rs | _ \<Rightarrow> [rcp]),
                                            nutrition = nut,
                                            storageTips = t\<rparr>, [])))))))"

text \<open>The body of the \<^verbatim>\<open>try\<close>. Only a string has \<^verbatim>\<open>replace\<close>.\<close>

definition try_body ::
  "runtime \<Rightarrow> jsval \<Rightarrow> string \<Rightarrow> thrown + (reco_value \<times> event list) option" where
  "try_body rt response vegetableName =
     (case response of
        JStr raw \<Rightarrow>
          (case match_braces (clean_response raw) of
             None \<Rightarrow> Inr None
           | Some matched \<Rightarrow>
               (case JSON_parse rt matched of
                  None \<Rightarrow> Inl SyntaxError
                | Some parsed \<Rightarrow> check_parsed rt parsed vegetableName))
      | _ \<Rightarrow> Inl TypeError)"

definition parseRecommendation :: "runtime \<Rightarrow> jsval \<Rightarrow> string \<Rightarrow> reco_value \<times> event list" where
  "parseRecommendation rt response vegetableName =
     (case try_body rt response vegetableName of
        Inl e \<Rightarrow>
          (getDefaultRecommendation vegetableName,
           [ConsoleError ''Failed to parse LLM response:'', CatalogLookup vegetableName])
      | Inr None \<Rightarrow> (getDefaultRecommendation vegetableName, [CatalogLookup vegetableName])
      | Inr (Some r) \<Rightarrow> r)"

section \<open>Recommendation provider adapter\<close>

text \<open>\<^verbatim>\<open>response.data.choices[0].message.content\<close>\<close>

definition groq_content :: "jsval \<Rightarrow> thrown + jsval" where
  "groq_content data =
     (case get_prop data ''choices'' of
        Inl e \<Rightarrow> Inl e
      | Inr choices \<Rightarrow>
          (case get_index0 choices of
             Inl e \<Rightarrow> Inl e
           | Inr choice \<Rightarrow>
               (case get_prop choice ''message'' of
                  Inl e \<Rightarrow> Inl e
                | Inr msg \<Rightarrow> get_prop msg ''content'')))"

definition getGroqRecommendation ::
  "runtime \<Rightarrow> string \<Rightarrow> (thrown + reco_value) \<times> event list" where
  "getGroqRecommendation rt vegetableName =
     (case axios_post rt Groq vegetableName of
        Inl err \<Rightarrow> (Inl (Rejected err), [GenerationRequest Groq vegetableName])
      | Inr data \<Rightarrow>
          (case groq_content data of
             Inl e \<Rightarrow> (Inl e, [GenerationRequest Groq vegetableName])
           | Inr llmResponse \<Rightarrow>
               (case parseRecommendation rt llmResponse vegetableName of
                  (r, tr) \<Rightarrow> (Inr r, GenerationRequest Groq vegetableName # tr))))"

definition getOllamaRecommendation ::
  "runtime \<Rightarrow> string \<Rightarrow> (thrown + reco_value) \<times> event list" where
  "getOllamaRecommendation rt vegetableName =
     (case axios_post rt Ollama vegetableName of
        Inl err \<Rightarrow> (Inl (Rejected err), [GenerationRequest Ollama vegetableName])
      | Inr data \<Rightarrow>
          (case get_prop data ''response'' of
             Inl e \<Rightarrow> (Inl e, [GenerationRequest Ollama vegetableName])
           | Inr llmResponse \<Rightarrow>
               (case parseRecommendation rt llmResponse vegetableName of
                  (r, tr) \<Rightarrow> (Inr r, GenerationRequest Ollama vegetableName # tr))))"

text \<open>\<^verbatim>\<open>LLM_PROVIDER === 'groq' && GROQ_API_KEY\<close>, with
  \<^verbatim>\<open>LLM_PROVIDER = process.env.LLM_PROVIDER || 'groq'\<close>.\<close>

definition use_groq :: "process_env \<Rightarrow> bool" where
  "use_groq pe =
     ((case LLM_PROVIDER pe of None \<Rightarrow> ''groq'' | Some v \<Rightarrow> if v = [] then ''groq'' else v) = ''groq''
      \<and> (case GROQ_API_KEY pe of None \<Rightarrow> False | Some k \<Rightarrow> k \<noteq> []))"

definition getLLMRecommendation ::
  "process_env \<Rightarrow> runtime \<Rightarrow> string \<Rightarrow> reco_value \<times> event list" where
  "getLLMRecommendation pe rt vegetableName =
     (if vegetableName = ''Unknown vegetable'' then (Reco getFallbackRecommendation, [])
      else
        (case (if use_groq pe then getGroqRecommendation rt vegetableName
               else getOllamaRecommendation rt vegetableName) of
           (Inr r, tr) \<Rightarrow> (r, tr)
         | (Inl e, tr) \<Rightarrow>
             (getDefaultRecommendation vegetableName,
              tr @ [ConsoleError ''LLM error, using fallback:'', CatalogLookup vegetableName])))"

section \<open>History store\<close>

text \<open>A row of the table \<^verbatim>\<open>predictions\<close>.\<close>

record row =
  row_id :: string
  image_filename :: string
  image_path :: string
  predicted_class :: string
  confidence :: rat
  top_3_predictions :: "(string \<times> rat) list"
  llm_recommendation :: reco_value
  created_at :: nat

text \<open>
  The connection pool: the rows of the table, and whether the database answers at all
  (\<open>fault = Some e\<close>: every query is rejected with \<open>e\<close>). The module's \<^verbatim>\<open>pool\<close> is
  \<^verbatim>\<open>null\<close> when neither \<^verbatim>\<open>DATABASE_URL\<close> nor \<^verbatim>\<open>DB_HOST\<close> is set: \<open>None\<close>.
\<close>

record pool =
  rows :: "row list"
  fault :: "js_error option"

type_synonym db = "pool option"

text \<open>The argument of \<^verbatim>\<open>savePrediction\<close>.\<close>

record prediction_data =
  imageFilename :: string
  imagePath :: string
  predictedClass :: string
  confidence_value :: rat
  top3Predictions :: "(string \<times> rat) list"
  llmRecommendation :: reco_value

text \<open>What \<^verbatim>\<open>savePrediction\<close> returns: the inserted row, or without a pool an object
  made of a random id, the data and the current time.\<close>

datatype saved = SavedRow row | Mock string prediction_data nat

fun saved_id :: "saved \<Rightarrow> string" where
  "saved_id (SavedRow r) = row_id r"
| "saved_id (Mock i d t) = i"

fun saved_created_at :: "saved \<Rightarrow> nat" where
  "saved_created_at (SavedRow r) = created_at r"
| "saved_created_at (Mock i d t) = t"

text \<open>The values a request draws from outside: two random UUIDs and the clock.\<close>

record fresh =
  path_uuid :: string
  record_uuid :: string
  now :: nat

definition savePrediction ::
  "db \<Rightarrow> fresh \<Rightarrow> prediction_data \<Rightarrow> (js_error + saved) \<times> db \<times> event list" where
  "savePrediction d fr pd =
     (case d of
        None \<Rightarrow> (Inr (Mock (record_uuid fr) pd (now fr)), None, [])
      | Some p \<Rightarrow>
          (case fault p of
             Some e \<Rightarrow> (Inl e, Some p, [StorageQuery ''INSERT''])
           | None \<Rightarrow>
               (let r = \<lparr>row_id = record_uuid fr,
                         image_filename = imageFilename pd,
                         image_path = imagePath pd,
                         predicted_class = predictedClass pd,
                         confidence = confidence_value pd,
                         top_3_predictions = top3Predictions pd,
                         llm_recommendation = llmRecommendation pd,
                         created_at = now fr\<rparr>
                in (Inr (SavedRow r), Some (p\<lparr>rows := rows p @ [r]\<rparr>), [StorageQuery ''INSERT'']))))"

text \<open>
  \<^verbatim>\<open>SELECT * FROM predictions ORDER BY created_at DESC LIMIT $1 OFFSET $2\<close>; the
  database rejects a negative limit or offset.
\<close>

definition getPredictions :: "db \<Rightarrow> int \<Rightarrow> int \<Rightarrow> (js_error + row list) \<times> event list" where
  "getPredictions d limit offset =
     (case d of
        None \<Rightarrow> (Inr [], [])
      | Some p \<Rightarrow>
          (case fault p of
             Some e \<Rightarrow> (Inl e, [StorageQuery ''SELECT''])
           | None \<Rightarrow>
               if limit < 0
               then (Inl \<lparr>name = ''error'', code = Some ''2201W'',
                          message = ''LIMIT must not be negative'', multer = False\<rparr>,
                     [StorageQuery ''SELECT''])
               else if offset < 0
               then (Inl \<lparr>name = ''error'', code = Some ''2201X'',
                          message = ''OFFSET must not be negative'', multer = False\<rparr>,
                     [StorageQuery ''SELECT''])
               else (Inr (take (nat limit) (drop (nat offset)
                            (sort_key (\<lambda>r. - int (created_at r)) (rows p)))),
                     [StorageQuery ''SELECT''])))"

text \<open>The column is of type \<^verbatim>\<open>UUID\<close>: the database compares the 128-bit values, so
  the case of the hexadecimal digits does not count.\<close>

definition uuid_eq :: "string \<Rightarrow> string \<Rightarrow> bool" where
  "uuid_eq a b = (toLowerCase a = toLowerCase b)"

text \<open>What \<^verbatim>\<open>deletePrediction\<close> returns: the deleted row, nothing (\<^verbatim>\<open>undefined\<close>),
  or without a pool the object \<^verbatim>\<open>{ id }\<close>.\<close>

datatype deleted = DeletedRow row | IdOnly string

fun deleted_id :: "deleted \<Rightarrow> string" where
  "deleted_id (DeletedRow r) = row_id r"
| "deleted_id (IdOnly i) = i"

definition deletePrediction ::
  "db \<Rightarrow> string \<Rightarrow> (js_error + deleted option) \<times> db \<times> event list" where
  "deletePrediction d i =
     (case d of
        None \<Rightarrow> (Inr (Some (IdOnly i)), None, [])
      | Some p \<Rightarrow>
          (case fault p of
             Some e \<Rightarrow> (Inl e, Some p, [StorageQuery ''DELETE''])
           | None \<Rightarrow>
               (Inr (case filter (\<lambda>r. uuid_eq (row_id r) i) (rows p) of
                       [] \<Rightarrow> None
                     | r # _ \<Rightarrow> Some (DeletedRow r)),
                Some (p\<lparr>rows := filter (\<lambda>r. \<not> uuid_eq (row_id r) i) (rows p)\<rparr>),
                [StorageQuery ''DELETE''])))"

section \<open>HTTP responses and error middleware\<close>

datatype history_item =
  HistoryItem string string string string rat "(string \<times> rat) list" reco_value nat

datatype body =
    ErrorBody string
  | PredictBody string prediction reco_value nat
  | HistoryBody "history_item list"
  | DeleteBody string
  | DefaultErrorPage

record response =
  status :: nat
  body :: body

text \<open>A handler or middleware either answers, or passes an error on with
  \<^verbatim>\<open>next(err)\<close>.\<close>

datatype handler_result = Responded response | Next js_error

text \<open>\<^verbatim>\<open>errorHandler\<close> of \<^verbatim>\<open>middleware/errorHandler\<close>. It answers in every branch.\<close>

definition errorHandler :: "process_env \<Rightarrow> js_error \<Rightarrow> handler_result" where
  "errorHandler pe err =
     (if name err = ''ValidationError''
      then Responded \<lparr>status = 400, body = ErrorBody (message err)\<rparr>
      else if code err = Some ''ECONNREFUSED''
      then Responded \<lparr>status = 502, body = ErrorBody ''Service unavailable''\<rparr>
      else if code err = Some ''ECONNABORTED'' \<or> includes_str (message err) ''timeout''
      then Responded \<lparr>status = 504, body = ErrorBody ''Request timeout''\<rparr>
      else if (case code err of None \<Rightarrow> False | Some c \<Rightarrow> c \<noteq> [] \<and> prefix ''23'' c)
      then Responded \<lparr>status = 400, body = ErrorBody ''Database constraint violation''\<rparr>
      else if code err = Some ''42P01''
      then Responded \<lparr>status = 500, body = ErrorBody ''Database table not found''\<rparr>
      else Responded \<lparr>status = 500,
                      body = ErrorBody (if NODE_ENV pe = Some ''production''
                                        then ''Internal server error'' else message err)\<rparr>)"

text \<open>The second error middleware of \<^verbatim>\<open>index.js\<close>, for the upload library's errors.\<close>

definition multerErrorHandler :: "js_error \<Rightarrow> handler_result" where
  "multerErrorHandler err =
     (if multer err
      then (if code err = Some ''LIMIT_FILE_SIZE''
            then Responded \<lparr>status = 413, body = ErrorBody ''File size exceeds 10MB limit''\<rparr>
            else Responded \<lparr>status = 400, body = ErrorBody (message err)\<rparr>)
      else Next err)"

text \<open>
  The framework offers an error to the error middlewares in the order in which they
  were registered; one that answers ends the request, one that calls \<^verbatim>\<open>next(err)\<close>
  hands over to the next, and the framework's own handler (status 500) is last.
\<close>

fun run_error_chain :: "(js_error \<Rightarrow> handler_result) list \<Rightarrow> js_error \<Rightarrow> response" where
  "run_error_chain [] err = \<lparr>status = 500, body = DefaultErrorPage\<rparr>"
| "run_error_chain (h # hs) err =
     (case h err of Responded r \<Rightarrow> r | Next e \<Rightarrow> run_error_chain hs e)"

text \<open>\<^verbatim>\<open>app.use(errorHandler)\<close> comes first in \<^verbatim>\<open>index.js\<close>, the upload-error
  middleware second.\<close>

definition error_middlewares :: "process_env \<Rightarrow> (js_error \<Rightarrow> handler_result) list" where
  "error_middlewares pe = [errorHandler pe, multerErrorHandler]"

section \<open>Upload middleware and request handlers\<close>

definition allowedTypes :: "string list" where
  "allowedTypes = [''image/jpeg'', ''image/png'', ''image/webp'']"

text \<open>
  \<^verbatim>\<open>upload.single('file')\<close> with the file filter and the size limit of
  \<^verbatim>\<open>index.js\<close>. The filter sees the file before its bytes are read; a file longer
  than the limit ends in the library's error \<^verbatim>\<open>LIMIT_FILE_SIZE\<close>. Without a file
  part the handler runs with \<^verbatim>\<open>req.file\<close> undefined.
\<close>

definition upload_single :: "upload_file option \<Rightarrow> js_error + upload_file option" where
  "upload_single part =
     (case part of
        None \<Rightarrow> Inr None
      | Some f \<Rightarrow>
          if mimetype f \<notin> set allowedTypes
          then Inl \<lparr>name = ''Error'', code = None,
                    message = ''Unsupported image format. Allowed: JPEG, PNG, WebP'',
                    multer = False\<rparr>
          else if size f > 10 * 1024 * 1024
          then Inl \<lparr>name = ''MulterError'', code = Some ''LIMIT_FILE_SIZE'',
                    message = ''File too large'', multer = True\<rparr>
          else Inr (Some f))"

text \<open>\<^verbatim>\<open>process.env.SKIP_LLM === 'true' || !process.env.OLLAMA_URL\<close>\<close>

definition skipLLM :: "process_env \<Rightarrow> bool" where
  "skipLLM pe =
     (SKIP_LLM pe = Some ''true''
      \<or> (case OLLAMA_URL pe of None \<Rightarrow> True | Some u \<Rightarrow> u = []))"

definition predictHandler ::
  "process_env \<Rightarrow> runtime \<Rightarrow> db \<Rightarrow> fresh \<Rightarrow> upload_file option
     \<Rightarrow> handler_result \<times> db \<times> event list" where
  "predictHandler pe rt d fr file =
     (case file of
        None \<Rightarrow> (Responded \<lparr>status = 400, body = ErrorBody ''No image file provided''\<rparr>, d, [])
      | Some f \<Rightarrow>
          (case ml_post rt f of
             Inl err \<Rightarrow>
               if code err = Some ''ECONNREFUSED''
               then (Responded \<lparr>status = 502, body = ErrorBody ''ML service unavailable''\<rparr>, d,
                     [ClassificationRequest (originalname f)])
               else (Next err, d, [ClassificationRequest (originalname f)])
           | Inr p \<Rightarrow>
               (case (if skipLLM pe then (Reco getFallbackRecommendation, [])
                      else getLLMRecommendation pe rt (pred_class p)) of
                  (recommendation, tr) \<Rightarrow>
                    (case savePrediction d fr
                            \<lparr>imageFilename = originalname f,
                             imagePath = ''/uploads/'' @ path_uuid fr @ ''_'' @ originalname f,
                             predictedClass = pred_class p,
                             confidence_value = pred_confidence p,
                             top3Predictions = pred_top_3 p,
                             llmRecommendation = recommendation\<rparr> of
                       (Inl err, d', tr') \<Rightarrow>
                         (Next err, d', ClassificationRequest (originalname f) # tr @ tr')
                     | (Inr savedRecord, d', tr') \<Rightarrow>
                         (Responded \<lparr>status = 200,
                                     body = PredictBody (saved_id savedRecord) p recommendation
                                              (saved_created_at savedRecord)\<rparr>,
                          d', ClassificationRequest (originalname f) # tr @ tr')))))"

text \<open>\<^verbatim>\<open>parseInt(q) || dflt\<close>, on the result of \<^verbatim>\<open>parseInt\<close> (\<open>None\<close>: not a number).\<close>

definition or_default :: "int option \<Rightarrow> int \<Rightarrow> int" where
  "or_default q dflt = (case q of None \<Rightarrow> dflt | Some n \<Rightarrow> if n = 0 then dflt else n)"

definition to_history_item :: "row \<Rightarrow> history_item" where
  "to_history_item p =
     HistoryItem (row_id p) (image_filename p) (image_path p) (predicted_class p) (confidence p)
       (top_3_predictions p) (llm_recommendation p) (created_at p)"

definition getHistory ::
  "db \<Rightarrow> int option \<Rightarrow> int option \<Rightarrow> handler_result \<times> event list" where
  "getHistory d limit_q offset_q =
     (case getPredictions d (or_default limit_q 50) (or_default offset_q 0) of
        (Inl err, tr) \<Rightarrow> (Next err, tr)
      | (Inr predictions, tr) \<Rightarrow>
          (Responded \<lparr>status = 200, body = HistoryBody (map to_history_item predictions)\<rparr>, tr))"

definition is_hex :: "char \<Rightarrow> bool" where
  "is_hex c = (c \<in> set ''0123456789abcdefABCDEF'')"

text \<open>A run of exactly \<open>n\<close> hexadecimal digits for each \<open>n\<close> of the list, with a hyphen
  between two runs, and nothing before or after.\<close>

fun hex_groups :: "nat list \<Rightarrow> string \<Rightarrow> bool" where
  "hex_groups [] s = False"
| "hex_groups [n] s = (length s = n \<and> list_all is_hex s)"
| "hex_groups (n # m # ns) s =
     (length (take n s) = n \<and> list_all is_hex (take n s)
      \<and> (case drop n s of [] \<Rightarrow> False | c # rest \<Rightarrow> c = CHR ''-'' \<and> hex_groups (m # ns) rest))"

text \<open>\<^verbatim>\<open>/^[0-9a-f]{8}-[0-9a-f]{4}-[0-9a-f]{4}-[0-9a-f]{4}-[0-9a-f]{12}$/i.test(id)\<close>\<close>

definition uuidRegex_test :: "string \<Rightarrow> bool" where
  "uuidRegex_test i = hex_groups [8, 4, 4, 4, 12] i"

definition deleteHistory :: "db \<Rightarrow> string \<Rightarrow> handler_result \<times> db \<times> event list" where
  "deleteHistory d i =
     (if \<not> uuidRegex_test i
      then (Responded \<lparr>status = 400, body = ErrorBody ''Invalid ID format''\<rparr>, d, [])
      else
        (case deletePrediction d i of
           (Inl err, d', tr) \<Rightarrow> (Next err, d', tr)
         | (Inr None, d', tr) \<Rightarrow>
             (Responded \<lparr>status = 404, body = ErrorBody ''Prediction not found''\<rparr>, d', tr)
         | (Inr (Some del), d', tr) \<Rightarrow>
             (Responded \<lparr>status = 200, body = DeleteBody (deleted_id del)\<rparr>, d', tr)))"

subsection \<open>The routes of \<^verbatim>\<open>index.js\<close>\<close>

definition finish :: "process_env \<Rightarrow> handler_result \<Rightarrow> response" where
  "finish pe hr = (case hr of Responded r \<Rightarrow> r | Next err \<Rightarrow> run_error_chain (error_middlewares pe) err)"

text \<open>\<^verbatim>\<open>app.post('/api/predict', upload.single('file'), predictHandler)\<close>\<close>

definition post_predict ::
  "process_env \<Rightarrow> runtime \<Rightarrow> db \<Rightarrow> fresh \<Rightarrow> upload_file option \<Rightarrow> response \<times> db \<times> event list" where
  "post_predict pe rt d fr part =
     (case upload_single part of
        Inl err \<Rightarrow> (run_error_chain (error_middlewares pe) err, d, [])
      | Inr file \<Rightarrow>
          (case predictHandler pe rt d fr file of (hr, d', tr) \<Rightarrow> (finish pe hr, d', tr)))"

text \<open>\<^verbatim>\<open>app.get('/api/history', getHistory)\<close>\<close>

definition get_history ::
  "process_env \<Rightarrow> db \<Rightarrow> int option \<Rightarrow> int option \<Rightarrow> response \<times> event list" where
  "get_history pe d limit_q offset_q =
     (case getHistory d limit_q offset_q of (hr, tr) \<Rightarrow> (finish pe hr, tr))"

text \<open>\<^verbatim>\<open>app.delete('/api/history/:id', deleteHistory)\<close>\<close>

definition delete_history ::
  "process_env \<Rightarrow> db \<Rightarrow> string \<Rightarrow> response \<times> db \<times> event list" where
  "delete_history pe d i =
     (case deleteHistory d i of (hr, d', tr) \<Rightarrow> (finish pe hr, d', tr))"

section \<open>Properties to state the requirements with\<close>

text \<open>The two shapes of \<^verbatim>\<open>nutrition\<close>: the structured one carries
  \<^verbatim>\<open>calories\<close>, \<^verbatim>\<open>vitamins\<close> or \<^verbatim>\<open>benefits\<close>, the degraded one \<^verbatim>\<open>info\<close>.\<close>

fun own_keys :: "jsval \<Rightarrow> string list" where
  "own_keys (JObj ps) = map fst ps"
| "own_keys v = []"

definition structured_shape :: "jsval \<Rightarrow> bool" where
  "structured_shape n =
     (''calories'' \<in> set (own_keys n) \<or> ''vitamins'' \<in> set (own_keys n)
      \<or> ''benefits'' \<in> set (own_keys n))"

definition info_shape :: "jsval \<Rightarrow> bool" where
  "info_shape n = (''info'' \<in> set (own_keys n))"

text \<open>The invariant of a Recommendation: exactly one nutrition shape, at least one
  recipe, a storage tip that is not empty.\<close>

definition reco_invariant :: "recommendation \<Rightarrow> bool" where
  "reco_invariant r =
     ((structured_shape (nutrition r) \<noteq> info_shape (nutrition r))
      \<and> recipes r \<noteq> [] \<and> storageTips r \<noteq> [])"

fun valid_reco :: "reco_value \<Rightarrow> bool" where
  "valid_reco (Reco r) = reco_invariant r"
| "valid_reco (ProtoMember k) = False"

section \<open>Sample inputs\<close>

text \<open>
  Concrete surroundings for the examples. \<open>fixed_runtime table gen cls\<close> is a runtime
  in which \<^verbatim>\<open>JSON.parse\<close> is known at the texts of \<open>table\<close> (and throws elsewhere),
  every generation request ends as \<open>gen\<close>, and every classification request as \<open>cls\<close>.
\<close>

definition fixed_runtime ::
  "(string \<times> jsval) list \<Rightarrow> js_error + jsval \<Rightarrow> js_error + prediction \<Rightarrow> runtime" where
  "fixed_runtime table gen cls =
     \<lparr>JSON_parse = map_of table, Number_toString = (\<lambda>q. ''0''),
      axios_post = (\<lambda>p l. gen), ml_post = (\<lambda>f. cls)\<rparr>"

definition ollama_env :: process_env where
  "ollama_env =
     \<lparr>LLM_PROVIDER = Some ''ollama'', GROQ_API_KEY = None, SKIP_LLM = None,
      OLLAMA_URL = Some ''http://localhost:11434'', NODE_ENV = None\<rparr>"

definition timeout_error :: js_error where
  "timeout_error =
     \<lparr>name = ''AxiosError'', code = Some ''ECONNABORTED'',
      message = ''timeout of 30000ms exceeded'', multer = False\<rparr>"

definition no_classifier :: "js_error + prediction" where
  "no_classifier =
     Inl \<lparr>name = ''AxiosError'', code = Some ''ECONNREFUSED'',
          message = ''connect ECONNREFUSED 127.0.0.1:8000'', multer = False\<rparr>"

text \<open>The body of a local-backend response whose generated text is \<open>raw\<close>.\<close>

definition ollama_answer :: "string \<Rightarrow> js_error + jsval" where
  "ollama_answer raw = Inr (JObj [(''response'', JStr raw)])"

text \<open>A generated text wrapped in a Markdown code fence.\<close>

definition fenced :: "string \<Rightarrow> string" where
  "fenced t = ''```json'' @ [newline] @ t @ [newline] @ ''```''"

text \<open>Four generated texts, each with the value \<^verbatim>\<open>JSON.parse\<close> gives for it: one
  with an empty recipe list and an empty nutrition object, one that echoes the prompt's
  template in a recipe list, and two whose recipes are a bare string, the second of them
  with the prompt's calorie template.\<close>

definition empty_recipes_text :: string where
  \<open>empty_recipes_text = ''{"recipes":[],"nutrition":{},"storageTips":"Simpan di kulkas"}''\<close>

definition empty_recipes_json :: jsval where
  "empty_recipes_json =
     JObj [(''recipes'', JArr []), (''nutrition'', JObj []),
           (''storageTips'', JStr ''Simpan di kulkas'')]"

definition template_text :: string where
  \<open>template_text = ''{"recipes":["Sup Wortel","Nama Resep 2"],"nutrition":{"calories":"41 kkal/100g"},"storageTips":"Simpan di kulkas"}''\<close>

definition template_json :: jsval where
  "template_json =
     JObj [(''recipes'', JArr [JStr ''Sup Wortel'', JStr ''Nama Resep 2'']),
           (''nutrition'', JObj [(''calories'', JStr ''41 kkal/100g'')]),
           (''storageTips'', JStr ''Simpan di kulkas'')]"

definition bare_string_text :: string where
  \<open>bare_string_text = ''{"recipes":"nama resep 1","nutrition":{"calories":"41 kkal/100g"},"storageTips":"Simpan di kulkas"}''\<close>

definition bare_string_json :: jsval where
  "bare_string_json =
     JObj [(''recipes'', JStr ''nama resep 1''),
           (''nutrition'', JObj [(''calories'', JStr ''41 kkal/100g'')]),
           (''storageTips'', JStr ''Simpan di kulkas'')]"

definition marker_xx_text :: string where
  \<open>marker_xx_text = ''{"recipes":"nama resep 1","nutrition":{"calories":"XX kkal/100g"},"storageTips":"Simpan di kulkas"}''\<close>

definition marker_xx_json :: jsval where
  "marker_xx_json =
     JObj [(''recipes'', JStr ''nama resep 1''),
           (''nutrition'', JObj [(''calories'', JStr ''XX kkal/100g'')]),
           (''storageTips'', JStr ''Simpan di kulkas'')]"

text \<open>The catalog's entry for \<^verbatim>\<open>Carrot\<close>, written out.\<close>

definition carrot_entry :: recommendation where
  "carrot_entry =
     entry [''Sup Wortel Ayam'', ''Tumis Wortel Telur'', ''Jus Wortel Jeruk'']
       ''41 kkal/100g'' [''Vitamin A'', ''Beta Karoten'', ''Vitamin K'']
       [''Baik untuk kesehatan mata'', ''Kaya antioksidan'', ''Meningkatkan imunitas'']
       ''Simpan di kulkas tanpa daun, tahan 2-3 minggu''"

definition carrot_prediction :: prediction where
  "carrot_prediction =
     \<lparr>pred_class = ''Carrot'', pred_confidence = 92 / 100,
      pred_top_3 = [(''Carrot'', 92 / 100), (''Radish'', 5 / 100), (''Pumpkin'', 1 / 100)]\<rparr>"

definition jpeg_file :: upload_file where
  "jpeg_file = \<lparr>originalname = ''wortel.jpg'', mimetype = ''image/jpeg'', size = 204800\<rparr>"

definition big_file :: upload_file where
  "big_file = \<lparr>originalname = ''besar.jpg'', mimetype = ''image/jpeg'', size = 10485761\<rparr>"

definition sample_fresh :: fresh where
  "sample_fresh =
     \<lparr>path_uuid = ''0b2c7a52-5f0e-4c55-9d7a-3a1f0c4e8b11'',
      record_uuid = ''7d9f3c1e-2a4b-4e6f-8a90-1b2c3d4e5f60'',
      now = 1700000000\<rparr>"

text \<open>Two ways the database can fail: it shuts the connection, or it cannot be reached.\<close>

definition db_shutdown :: js_error where
  "db_shutdown =
     \<lparr>name = ''error'', code = Some ''57P01'',
      message = ''terminating connection due to administrator command'', multer = False\<rparr>"

definition db_unreachable :: js_error where
  "db_unreachable =
     \<lparr>name = ''Error'', code = Some ''ECONNREFUSED'',
      message = ''connect ECONNREFUSED 127.0.0.1:5432'', multer = False\<rparr>"

definition reset_error :: js_error where
  "reset_error =
     \<lparr>name = ''AxiosError'', code = Some ''ECONNRESET'',
      message = ''socket hang up'', multer = False\<rparr>"

definition stored_row :: row where
  "stored_row =
     \<lparr>row_id = ''7d9f3c1e-2a4b-4e6f-8a90-1b2c3d4e5f60'',
      image_filename = ''wortel.jpg'',
      image_path = ''/uploads/0b2c7a52-5f0e-4c55-9d7a-3a1f0c4e8b11_wortel.jpg'',
      predicted_class = ''Carrot'', confidence = 92 / 100,
      top_3_predictions = [(''Carrot'', 92 / 100), (''Radish'', 5 / 100), (''Pumpkin'', 1 / 100)],
      llm_recommendation = Reco getFallbackRecommendation,
      created_at = 1700000000\<rparr>"

section \<open>The catalog and the degraded fallback\<close>

lemma defaults_valid: "(k, r) \<in> set defaults \<Longrightarrow> reco_invariant r"
  by (auto simp: defaults_def entry_def reco_invariant_def structured_shape_def info_shape_def)

lemma fallback_valid: "reco_invariant getFallbackRecommendation"
  by (simp add: getFallbackRecommendation_def reco_invariant_def structured_shape_def
      info_shape_def)

lemma getDefault_cases:
  "vegetableName \<notin> set Object_prototype_keys \<Longrightarrow>
   (\<exists>r. map_of defaults vegetableName = Some r
        \<and> getDefaultRecommendation vegetableName = Reco r)
   \<or> (map_of defaults vegetableName = None
       \<and> getDefaultRecommendation vegetableName = Reco getFallbackRecommendation)"
  by (cases "map_of defaults vegetableName") (simp_all add: getDefaultRecommendation_def)

lemma getDefault_valid:
  "vegetableName \<notin> set Object_prototype_keys \<Longrightarrow>
   valid_reco (getDefaultRecommendation vegetableName)"
  using getDefault_cases[of vegetableName] fallback_valid
  by (auto dest!: map_of_SomeD defaults_valid)

lemma fallback_not_in_catalog: "(k, getFallbackRecommendation) \<notin> set defaults"
  by (auto simp: defaults_def entry_def getFallbackRecommendation_def)

lemma fallback_exactly_without_entry:
  assumes "vegetableName \<notin> set Object_prototype_keys"
  shows "getDefaultRecommendation vegetableName = Reco getFallbackRecommendation
     \<longleftrightarrow> map_of defaults vegetableName = None"
proof (cases "map_of defaults vegetableName")
  case None
  with assms show ?thesis by (simp add: getDefaultRecommendation_def)
next
  case (Some r)
  then have "(vegetableName, r) \<in> set defaults" by (rule map_of_SomeD)
  with fallback_not_in_catalog[of vegetableName] have "r \<noteq> getFallbackRecommendation" by auto
  with Some show ?thesis by (simp add: getDefaultRecommendation_def)
qed

lemma carrot_default: "getDefaultRecommendation ''Carrot'' = Reco carrot_entry"
  by (simp add: getDefaultRecommendation_def defaults_def carrot_entry_def)

section \<open>How a result comes about\<close>

text \<open>The inner check returns a value in two ways only: the catalog lookup after a
  placeholder, or the record made of the parsed fields.\<close>

lemma check_parsed_cases:
  assumes "check_parsed rt parsed l = Inr (Some (v, tr))"
  shows "(v = getDefaultRecommendation l \<and> tr = [CatalogLookup l])
    \<or> (\<exists>rcp nut tips t.
          get_prop parsed ''recipes'' = Inr rcp \<and> truthy rcp
        \<and> get_prop parsed ''nutrition'' = Inr nut \<and> truthy nut
        \<and> get_prop parsed ''storageTips'' = Inr tips \<and> truthy tips
        \<and> isPlaceholder rcp nut = Inr False
        \<and> ToString (Number_toString rt) tips = Inr t
        \<and> v = Reco \<lparr>recipes = (case rcp of JArr rs \<Rightarrow> rs | _ \<Rightarrow> [rcp]),
                    nutrition = nut, storageTips = t\<rparr>
        \<and> tr = [])"
  using assms unfolding check_parsed_def
  by (auto split: sum.splits if_splits)

lemma parse_cases:
  assumes "parseRecommendation rt resp l = (v, tr)"
  shows "v = getDefaultRecommendation l
    \<or> (\<exists>raw matched parsed. resp = JStr raw
         \<and> match_braces (clean_response raw) = Some matched
         \<and> JSON_parse rt matched = Some parsed
         \<and> check_parsed rt parsed l = Inr (Some (v, tr)))"
  using assms unfolding parseRecommendation_def try_body_def
  by (auto split: sum.splits option.splits jsval.splits)

text \<open>The adapter returns in three ways: the fallback at the sentinel, the catalog lookup,
  or what the parser made of the text that the selected backend answered with.\<close>

lemma adapter_cases:
  assumes "getLLMRecommendation pe rt l = (v, tr)"
  shows "(l = ''Unknown vegetable'' \<and> v = Reco getFallbackRecommendation)
    \<or> (l \<noteq> ''Unknown vegetable'' \<and> v = getDefaultRecommendation l)
    \<or> (l \<noteq> ''Unknown vegetable''
        \<and> (\<exists>data resp tr'. axios_post rt (if use_groq pe then Groq else Ollama) l = Inr data
          \<and> (if use_groq pe then groq_content data else get_prop data ''response'') = Inr resp
          \<and> parseRecommendation rt resp l = (v, tr')))"
  using assms
  unfolding getLLMRecommendation_def getGroqRecommendation_def getOllamaRecommendation_def
  by (auto split: sum.splits if_splits prod.splits)

text \<open>When the request of the selected provider fails, the adapter returns what the
  catalog lookup returns.\<close>

lemma transport_failure_default:
  assumes "vegetableName \<noteq> ''Unknown vegetable''"
    and "axios_post rt (if use_groq pe then Groq else Ollama) vegetableName = Inl e"
  shows "fst (getLLMRecommendation pe rt vegetableName) = getDefaultRecommendation vegetableName"
  using assms
  by (simp add: getLLMRecommendation_def getGroqRecommendation_def getOllamaRecommendation_def
      split: if_splits)

section \<open>The invariant of the returned recommendation\<close>

text \<open>
  Claim C1 says that \<^verbatim>\<open>getLLMRecommendation\<close> returns, for every label and every
  backend outcome, a Recommendation with exactly one nutrition shape, a non-empty recipe
  list and a non-empty storage tip. It does not: the local backend answers the request
  for \<^verbatim>\<open>Carrot\<close> with a text that parses to an empty recipe list and an empty
  nutrition object; all three fields are truthy, nothing marks a placeholder, and the
  parsed fields are returned as they are.
\<close>

theorem accepted_payload_breaks_invariant:
  "getLLMRecommendation ollama_env
     (fixed_runtime [(empty_recipes_text, empty_recipes_json)]
        (ollama_answer empty_recipes_text) no_classifier) ''Carrot''
     = (Reco \<lparr>recipes = [], nutrition = JObj [], storageTips = ''Simpan di kulkas''\<rparr>,
        [GenerationRequest Ollama ''Carrot''])
   \<and> \<not> valid_reco (Reco \<lparr>recipes = [], nutrition = JObj [], storageTips = ''Simpan di kulkas''\<rparr>)"
  by (simp add: getLLMRecommendation_def use_groq_def getOllamaRecommendation_def
      parseRecommendation_def try_body_def clean_response_def trim_def is_space_def
      match_braces_def newline_def skip_newline_def check_parsed_def isPlaceholder_def
      recipes_check_def calories_check_def fixed_runtime_def ollama_env_def ollama_answer_def
      empty_recipes_text_def empty_recipes_json_def reco_invariant_def)

text \<open>
  Claim C1, amended. Take a label that is not the name of a member inherited from
  \<^verbatim>\<open>Object.prototype\<close>, any configuration and any backend. At the sentinel
  \<^verbatim>\<open>getLLMRecommendation\<close> returns the degraded fallback; when the request of the
  selected backend times out, is refused or fails in transport it returns what the
  catalog lookup gives; both satisfy the invariant. In general the result satisfies the
  invariant unless the label is not the sentinel, the selected backend answered, the
  answer's text is a string whose braces enclose a value that parses, the parsed
  \<^verbatim>\<open>recipes\<close>, \<^verbatim>\<open>nutrition\<close> and \<^verbatim>\<open>storageTips\<close> are truthy, no placeholder
  check rejects and the storage tips convert to a string: then the result is the record
  of the parsed recipes (wrapped in a list if they are not one), the parsed nutrition
  value unchanged and the converted storage tips. Each of these conditions is fixed by
  the run, so a text without JSON, a syntax error, a missing field and a placeholder all
  end in a valid recommendation.
\<close>

theorem recommendation_valid_unless_passed_through:
  assumes "vegetableName \<notin> set Object_prototype_keys"
    and "getLLMRecommendation pe rt vegetableName = (v, tr)"
  shows "(vegetableName = ''Unknown vegetable'' \<longrightarrow>
            v = Reco getFallbackRecommendation \<and> valid_reco v)
    \<and> (vegetableName \<noteq> ''Unknown vegetable''
        \<and> axios_post rt (if use_groq pe then Groq else Ollama) vegetableName = Inl e \<longrightarrow>
            v = getDefaultRecommendation vegetableName \<and> valid_reco v)
    \<and> (valid_reco v
        \<or> (vegetableName \<noteq> ''Unknown vegetable''
           \<and> (\<exists>data raw matched parsed rcp nut tips t.
                axios_post rt (if use_groq pe then Groq else Ollama) vegetableName = Inr data
              \<and> (if use_groq pe then groq_content data else get_prop data ''response'')
                   = Inr (JStr raw)
              \<and> match_braces (clean_response raw) = Some matched
              \<and> JSON_parse rt matched = Some parsed
              \<and> get_prop parsed ''recipes'' = Inr rcp \<and> truthy rcp
              \<and> get_prop parsed ''nutrition'' = Inr nut \<and> truthy nut
              \<and> get_prop parsed ''storageTips'' = Inr tips \<and> truthy tips
              \<and> isPlaceholder rcp nut = Inr False
              \<and> ToString (Number_toString rt) tips = Inr t
              \<and> v = Reco \<lparr>recipes = (case rcp of JArr rs \<Rightarrow> rs | _ \<Rightarrow> [rcp]),
                          nutrition = nut, storageTips = t\<rparr>)))"
proof -
  have p1: "vegetableName = ''Unknown vegetable'' \<longrightarrow>
            v = Reco getFallbackRecommendation \<and> valid_reco v"
  proof
    assume "vegetableName = ''Unknown vegetable''"
    with assms(2) have "v = Reco getFallbackRecommendation"
      by (simp add: getLLMRecommendation_def)
    then show "v = Reco getFallbackRecommendation \<and> valid_reco v"
      using fallback_valid by simp
  qed
  have p2: "vegetableName \<noteq> ''Unknown vegetable''
        \<and> axios_post rt (if use_groq pe then Groq else Ollama) vegetableName = Inl e \<longrightarrow>
            v = getDefaultRecommendation vegetableName \<and> valid_reco v"
  proof
    assume a: "vegetableName \<noteq> ''Unknown vegetable''
        \<and> axios_post rt (if use_groq pe then Groq else Ollama) vegetableName = Inl e"
    then have "fst (getLLMRecommendation pe rt vegetableName)
        = getDefaultRecommendation vegetableName"
      using transport_failure_default[of vegetableName rt pe e] by simp
    with assms(2) have "v = getDefaultRecommendation vegetableName" by simp
    then show "v = getDefaultRecommendation vegetableName \<and> valid_reco v"
      using getDefault_valid[OF assms(1)] by simp
  qed
  have dflt: "valid_reco (getDefaultRecommendation vegetableName)"
    using assms(1) by (rule getDefault_valid)
  let ?sel = "if use_groq pe then Groq else Ollama"
  from adapter_cases[OF assms(2)] consider
      (sentinel) "v = Reco getFallbackRecommendation"
    | (fallback) "v = getDefaultRecommendation vegetableName"
    | (answered) data resp tr' where
        "vegetableName \<noteq> ''Unknown vegetable''"
        "axios_post rt ?sel vegetableName = Inr data"
        "(if use_groq pe then groq_content data else get_prop data ''response'') = Inr resp"
        "parseRecommendation rt resp vegetableName = (v, tr')"
    by blast
  then have p3: "valid_reco v
        \<or> (vegetableName \<noteq> ''Unknown vegetable''
           \<and> (\<exists>data raw matched parsed rcp nut tips t.
                axios_post rt (if use_groq pe then Groq else Ollama) vegetableName = Inr data
              \<and> (if use_groq pe then groq_content data else get_prop data ''response'')
                   = Inr (JStr raw)
              \<and> match_braces (clean_response raw) = Some matched
              \<and> JSON_parse rt matched = Some parsed
              \<and> get_prop parsed ''recipes'' = Inr rcp \<and> truthy rcp
              \<and> get_prop parsed ''nutrition'' = Inr nut \<and> truthy nut
              \<and> get_prop parsed ''storageTips'' = Inr tips \<and> truthy tips
              \<and> isPlaceholder rcp nut = Inr False
              \<and> ToString (Number_toString rt) tips = Inr t
              \<and> v = Reco \<lparr>recipes = (case rcp of JArr rs \<Rightarrow> rs | _ \<Rightarrow> [rcp]),
                          nutrition = nut, storageTips = t\<rparr>))"
  proof cases
    case sentinel
    then show ?thesis using fallback_valid by simp
  next
    case fallback
    then show ?thesis using dflt by simp
  next
    case answered
    from parse_cases[OF answered(4)] consider
        (rejected) "v = getDefaultRecommendation vegetableName"
      | (parsed) raw matched parsed where
          "resp = JStr raw" "match_braces (clean_response raw) = Some matched"
          "JSON_parse rt matched = Some parsed"
          "check_parsed rt parsed vegetableName = Inr (Some (v, tr'))"
      by blast
    then show ?thesis
    proof cases
      case rejected
      then show ?thesis using dflt by simp
    next
      case parsed
      from check_parsed_cases[OF parsed(4)] consider
          (placeholder) "v = getDefaultRecommendation vegetableName"
        | (accepted) rcp nut tips t where
            "get_prop parsed ''recipes'' = Inr rcp" "truthy rcp"
            "get_prop parsed ''nutrition'' = Inr nut" "truthy nut"
            "get_prop parsed ''storageTips'' = Inr tips" "truthy tips"
            "isPlaceholder rcp nut = Inr False"
            "ToString (Number_toString rt) tips = Inr t"
            "v = Reco \<lparr>recipes = (case rcp of JArr rs \<Rightarrow> rs | _ \<Rightarrow> [rcp]),
                        nutrition = nut, storageTips = t\<rparr>"
        by blast
      then show ?thesis
      proof cases
        case placeholder
        then show ?thesis using dflt by simp
      next
        case accepted
        have "\<exists>data raw matched parsed rcp nut tips t.
                axios_post rt ?sel vegetableName = Inr data
              \<and> (if use_groq pe then groq_content data else get_prop data ''response'')
                   = Inr (JStr raw)
              \<and> match_braces (clean_response raw) = Some matched
              \<and> JSON_parse rt matched = Some parsed
              \<and> get_prop parsed ''recipes'' = Inr rcp \<and> truthy rcp
              \<and> get_prop parsed ''nutrition'' = Inr nut \<and> truthy nut
              \<and> get_prop parsed ''storageTips'' = Inr tips \<and> truthy tips
              \<and> isPlaceholder rcp nut = Inr False
              \<and> ToString (Number_toString rt) tips = Inr t
              \<and> v = Reco \<lparr>recipes = (case rcp of JArr rs \<Rightarrow> rs | _ \<Rightarrow> [rcp]),
                          nutrition = nut, storageTips = t\<rparr>"
          using answered(2,3) parsed(1,2,3) accepted by blast
        with answered(1) show ?thesis by blast
      qed
    qed
  qed
  from p1 p2 p3 show ?thesis by blast
qed

text \<open>Instances: the request for \<^verbatim>\<open>Carrot\<close> times out and the catalog entry comes
  back; the sentinel gets the fallback. Both satisfy the invariant.\<close>

theorem recommendation_valid_on_timeout:
  "''Carrot'' \<notin> set Object_prototype_keys
   \<and> ''Carrot'' \<noteq> ''Unknown vegetable''
   \<and> axios_post (fixed_runtime [] (Inl timeout_error) no_classifier)
        (if use_groq ollama_env then Groq else Ollama) ''Carrot'' = Inl timeout_error
   \<and> getLLMRecommendation ollama_env (fixed_runtime [] (Inl timeout_error) no_classifier) ''Carrot''
       = (Reco carrot_entry,
          [GenerationRequest Ollama ''Carrot'', ConsoleError ''LLM error, using fallback:'',
           CatalogLookup ''Carrot''])
   \<and> valid_reco (Reco carrot_entry)
   \<and> ''Unknown vegetable'' \<notin> set Object_prototype_keys
   \<and> getLLMRecommendation ollama_env (fixed_runtime [] (Inl timeout_error) no_classifier)
        ''Unknown vegetable'' = (Reco getFallbackRecommendation, [])
   \<and> valid_reco (Reco getFallbackRecommendation)"
proof -
  let ?rt = "fixed_runtime [] (Inl timeout_error) no_classifier"
  have h1: "''Carrot'' \<notin> set Object_prototype_keys"
    by (simp add: Object_prototype_keys_def)
  have n1: "''Carrot'' \<noteq> ''Unknown vegetable''" by simp
  have f1: "axios_post ?rt (if use_groq ollama_env then Groq else Ollama) ''Carrot''
      = Inl timeout_error"
    by (simp add: fixed_runtime_def)
  have h2: "getLLMRecommendation ollama_env ?rt ''Carrot''
       = (Reco carrot_entry,
          [GenerationRequest Ollama ''Carrot'', ConsoleError ''LLM error, using fallback:'',
           CatalogLookup ''Carrot''])"
    by (simp add: getLLMRecommendation_def use_groq_def ollama_env_def
        getOllamaRecommendation_def fixed_runtime_def carrot_default)
  have u1: "''Unknown vegetable'' \<notin> set Object_prototype_keys"
    by (simp add: Object_prototype_keys_def)
  have u2: "getLLMRecommendation ollama_env ?rt ''Unknown vegetable''
       = (Reco getFallbackRecommendation, [])"
    by (simp add: getLLMRecommendation_def)
  have a: "valid_reco (Reco carrot_entry)"
    using recommendation_valid_unless_passed_through[OF h1 h2, of timeout_error, THEN conjunct2, THEN conjunct1] n1 f1 by blast
  have b: "valid_reco (Reco getFallbackRecommendation)"
    using recommendation_valid_unless_passed_through[OF u1 u2, of timeout_error, THEN conjunct1] by blast
  from h1 n1 f1 h2 a u1 u2 b show ?thesis by blast
qed

section \<open>Failure of the generation request\<close>

text \<open>
  Claim C4. On a failed generation request \<^verbatim>\<open>getLLMRecommendation\<close> is to return the
  catalog entry of the label, and the degraded fallback exactly when the label has no
  entry. For the label \<^verbatim>\<open>constructor\<close>, which has no entry, the lookup
  \<^verbatim>\<open>defaults[vegetableName]\<close> finds the member that every object inherits, and the
  function returns that member instead of the fallback.
\<close>

theorem inherited_key_returned_on_timeout:
  "getLLMRecommendation ollama_env (fixed_runtime [] (Inl timeout_error) no_classifier)
      ''constructor''
     = (ProtoMember ''constructor'',
        [GenerationRequest Ollama ''constructor'', ConsoleError ''LLM error, using fallback:'',
         CatalogLookup ''constructor''])
   \<and> map_of defaults ''constructor'' = None
   \<and> ProtoMember ''constructor'' \<noteq> Reco getFallbackRecommendation"
  by (simp add: getLLMRecommendation_def use_groq_def ollama_env_def
      getOllamaRecommendation_def fixed_runtime_def getDefaultRecommendation_def defaults_def
      Object_prototype_keys_def)

section \<open>Placeholder rejection\<close>

lemma includes_str_map: "includes_str s t \<Longrightarrow> includes_str (map f s) (map f t)"
proof (induction s)
  case Nil
  then show ?case by simp
next
  case (Cons c cs)
  from Cons.prems have "prefix t (c # cs) \<or> includes_str cs t" by simp
  then show ?case
  proof
    assume "prefix t (c # cs)"
    then have "prefix (map f t) (map f (c # cs))" by (rule map_mono_prefix)
    then show ?thesis by simp
  next
    assume "includes_str cs t"
    with Cons.IH show ?thesis by simp
  qed
qed

text \<open>A list that holds a string with the marker never passes \<^verbatim>\<open>some\<close> as false: the
  scan stops earlier with true or with a throw, or it reaches the string.\<close>

lemma marker_found:
  assumes "JStr r \<in> set rs" and "includes_str (toLowerCase r) ''nama resep''"
  shows "array_some recipe_is_template rs \<noteq> Inr False"
  using assms
proof (induction rs)
  case Nil
  then show ?case by simp
next
  case (Cons x xs)
  show ?case
  proof (cases "recipe_is_template x")
    case (Inl e)
    then show ?thesis by simp
  next
    case (Inr b)
    show ?thesis
    proof (cases b)
      case True
      with Inr show ?thesis by simp
    next
      case False
      with Inr Cons.prems have "x \<noteq> JStr r" by auto
      with Cons.prems have "JStr r \<in> set xs" by auto
      with Cons.IH Cons.prems(2) Inr False show ?thesis by simp
    qed
  qed
qed

lemma check_parsed_marker:
  assumes "get_prop parsed ''recipes'' = Inr (JArr rs)"
    and "JStr r \<in> set rs" and "includes_str (toLowerCase r) ''nama resep''"
  shows "check_parsed rt parsed l = Inr (Some (v, tr)) \<Longrightarrow> v = getDefaultRecommendation l"
  using marker_found[OF assms(2,3)] assms(1)
  unfolding check_parsed_def isPlaceholder_def recipes_check_def
  by (auto split: sum.splits if_splits)

text \<open>
  Let the generated text hold a brace-enclosed value that parses, and let the parsed
  \<^verbatim>\<open>recipes\<close> be a list in which some string contains \<^verbatim>\<open>nama resep\<close> in any
  letter case (\<open>marker\<close> is the run of the string that lower-cases to it). Then
  \<^verbatim>\<open>parseRecommendation\<close> returns what \<^verbatim>\<open>getDefaultRecommendation\<close> returns for
  the label, whatever else the payload holds.
\<close>

lemma template_recipe_rejected:
  assumes "match_braces (clean_response raw) = Some matched"
    and "JSON_parse rt matched = Some parsed"
    and "get_prop parsed ''recipes'' = Inr (JArr rs)"
    and "JStr r \<in> set rs"
    and "includes_str r marker" and "toLowerCase marker = ''nama resep''"
  shows "fst (parseRecommendation rt (JStr raw) vegetableName)
           = getDefaultRecommendation vegetableName"
proof -
  have low: "includes_str (toLowerCase r) ''nama resep''"
    using includes_str_map[OF assms(5), of toLowerChar] assms(6) by (simp add: toLowerCase_def)
  obtain v tr where res: "parseRecommendation rt (JStr raw) vegetableName = (v, tr)"
    by (cases "parseRecommendation rt (JStr raw) vegetableName")
  from parse_cases[OF res] consider
      (rejected) "v = getDefaultRecommendation vegetableName"
    | (parsed) raw' matched' parsed' where
        "JStr raw = JStr raw'" "match_braces (clean_response raw') = Some matched'"
        "JSON_parse rt matched' = Some parsed'"
        "check_parsed rt parsed' vegetableName = Inr (Some (v, tr))"
    by blast
  then have "v = getDefaultRecommendation vegetableName"
  proof cases
    case rejected
    then show ?thesis .
  next
    case parsed
    with assms(1,2) have "parsed' = parsed" by simp
    with parsed(4) check_parsed_marker[OF assms(3,4) low] show ?thesis by blast
  qed
  with res show ?thesis by simp
qed

text \<open>The adapter passes the parser's result on: what the parser returns for the text
  of the selected backend is what the caller of \<^verbatim>\<open>getLLMRecommendation\<close> receives.\<close>

lemma adapter_returns_parse_result:
  assumes "vegetableName \<noteq> ''Unknown vegetable''"
    and "axios_post rt (if use_groq pe then Groq else Ollama) vegetableName = Inr data"
    and "(if use_groq pe then groq_content data else get_prop data ''response'') = Inr resp"
  shows "fst (getLLMRecommendation pe rt vegetableName)
           = fst (parseRecommendation rt resp vegetableName)"
  using assms
  by (auto simp: getLLMRecommendation_def getGroqRecommendation_def
      getOllamaRecommendation_def split: if_splits prod.splits)

text \<open>For a label that is not the name of an inherited member, that is the catalog
  entry of the label, or the degraded fallback when the label has no entry.\<close>

lemma template_catalog_or_fallback:
  assumes "vegetableName \<notin> set Object_prototype_keys"
    and "match_braces (clean_response raw) = Some matched"
    and "JSON_parse rt matched = Some parsed"
    and "get_prop parsed ''recipes'' = Inr (JArr rs)"
    and "JStr r \<in> set rs"
    and "includes_str r marker" and "toLowerCase marker = ''nama resep''"
  shows "(\<exists>entry. map_of defaults vegetableName = Some entry
            \<and> fst (parseRecommendation rt (JStr raw) vegetableName) = Reco entry)
     \<or> (map_of defaults vegetableName = None
         \<and> fst (parseRecommendation rt (JStr raw) vegetableName)
             = Reco getFallbackRecommendation)"
  using template_recipe_rejected[OF assms(2-7), of vegetableName] getDefault_cases[OF assms(1)]
  by simp

text \<open>An instance: a fenced answer for \<^verbatim>\<open>Carrot\<close> whose second recipe is
  \<^verbatim>\<open>Nama Resep 2\<close>, with an otherwise valid payload, is replaced by the catalog's
  entry for \<^verbatim>\<open>Carrot\<close>.\<close>

lemma template_recipe_example:
  "parseRecommendation
     (fixed_runtime [(template_text, template_json)]
        (ollama_answer (fenced template_text)) no_classifier)
     (JStr (fenced template_text)) ''Carrot'' = (Reco carrot_entry, [CatalogLookup ''Carrot''])"
  by (simp add: parseRecommendation_def try_body_def clean_response_def trim_def is_space_def
      match_braces_def newline_def skip_newline_def check_parsed_def isPlaceholder_def
      recipes_check_def calories_check_def fixed_runtime_def toLowerCase_def toLowerChar_def
      fenced_def template_text_def template_json_def carrot_default)

text \<open>
  Claim C6. A recipe list that holds the marker \<^verbatim>\<open>nama resep\<close> is to be rejected and
  the caller is to receive the catalog entry or the degraded fallback instead. The list
  is rejected, but what the caller receives is what \<^verbatim>\<open>defaults[vegetableName]\<close>
  finds: for the label \<^verbatim>\<open>toString\<close>, which has no entry, \<^verbatim>\<open>parseRecommendation\<close>
  and with it \<^verbatim>\<open>getLLMRecommendation\<close> return the member that every object inherits,
  neither a catalog entry nor the fallback.
\<close>

theorem template_recipe_returns_inherited_member:
  "match_braces (clean_response (fenced template_text)) = Some template_text
   \<and> get_prop template_json ''recipes'' = Inr (JArr [JStr ''Sup Wortel'', JStr ''Nama Resep 2''])
   \<and> parseRecommendation
        (fixed_runtime [(template_text, template_json)]
           (ollama_answer (fenced template_text)) no_classifier)
        (JStr (fenced template_text)) ''toString''
       = (ProtoMember ''toString'', [CatalogLookup ''toString''])
   \<and> getLLMRecommendation ollama_env
        (fixed_runtime [(template_text, template_json)]
           (ollama_answer (fenced template_text)) no_classifier) ''toString''
       = (ProtoMember ''toString'',
          [GenerationRequest Ollama ''toString'', CatalogLookup ''toString''])
   \<and> map_of defaults ''toString'' = None
   \<and> ProtoMember ''toString'' \<noteq> Reco getFallbackRecommendation"
  by (simp add: getLLMRecommendation_def use_groq_def ollama_env_def getOllamaRecommendation_def
      ollama_answer_def parseRecommendation_def try_body_def clean_response_def trim_def
      is_space_def match_braces_def newline_def skip_newline_def check_parsed_def
      isPlaceholder_def recipes_check_def calories_check_def fixed_runtime_def toLowerCase_def
      toLowerChar_def fenced_def template_text_def template_json_def
      getDefaultRecommendation_def defaults_def Object_prototype_keys_def)

section \<open>Recipes given as a bare string\<close>

text \<open>
  Claim C10 says that a bare string in \<^verbatim>\<open>recipes\<close>, with \<^verbatim>\<open>nutrition\<close> and
  \<^verbatim>\<open>storageTips\<close> present, is accepted and returned wrapped, even when it contains
  a marker. Not in every case: the string \<^verbatim>\<open>nama resep 1\<close> comes with the calories
  \<^verbatim>\<open>XX kkal/100g\<close>; the calorie check marks the payload as a placeholder, and the
  catalog's entry for \<^verbatim>\<open>Carrot\<close> is returned, not the wrapped string.
\<close>

theorem bare_string_rejected_by_calorie_marker:
  "get_prop marker_xx_json ''recipes'' = Inr (JStr ''nama resep 1'')
   \<and> truthy (JObj [(''calories'', JStr ''XX kkal/100g'')])
   \<and> truthy (JStr ''Simpan di kulkas'')
   \<and> parseRecommendation
        (fixed_runtime [(marker_xx_text, marker_xx_json)] (ollama_answer marker_xx_text)
           no_classifier)
        (JStr marker_xx_text) ''Carrot''
      = (Reco carrot_entry, [CatalogLookup ''Carrot''])
   \<and> recipes carrot_entry \<noteq> [JStr ''nama resep 1'']"
  by (simp add: parseRecommendation_def try_body_def clean_response_def trim_def is_space_def
      match_braces_def newline_def skip_newline_def check_parsed_def isPlaceholder_def
      recipes_check_def calories_check_def fixed_runtime_def marker_xx_text_def
      marker_xx_json_def carrot_default carrot_entry_def entry_def)

text \<open>
  Claim C10, amended. Let the parsed \<^verbatim>\<open>recipes\<close> be a bare, non-empty string and let
  \<^verbatim>\<open>nutrition\<close> and \<^verbatim>\<open>storageTips\<close> be truthy. Then the recipe check is false
  whatever the string says, and the result of \<^verbatim>\<open>parseRecommendation\<close> is decided
  by the calorie check and by the conversion of the storage tips alone: if the calorie
  check is false and the conversion succeeds, the string comes back wrapped as a
  one-element recipe list, also when it contains \<^verbatim>\<open>nama resep\<close> or \<^verbatim>\<open>resep 1\<close>;
  if the calorie check finds \<^verbatim>\<open>XX\<close>, or it or the conversion throws, the catalog
  lookup is returned.
\<close>

theorem bare_string_recipes_unchecked:
  assumes "match_braces (clean_response raw) = Some matched"
    and "JSON_parse rt matched = Some parsed"
    and "get_prop parsed ''recipes'' = Inr (JStr s)" and "s \<noteq> []"
    and "get_prop parsed ''nutrition'' = Inr nut" and "truthy nut"
    and "get_prop parsed ''storageTips'' = Inr tips" and "truthy tips"
  shows "recipes_check (JStr s) = Inr False
    \<and> parseRecommendation rt (JStr raw) vegetableName =
      (case calories_check nut of
         Inl e \<Rightarrow> (getDefaultRecommendation vegetableName,
                   [ConsoleError ''Failed to parse LLM response:'', CatalogLookup vegetableName])
       | Inr ph \<Rightarrow>
           if ph then (getDefaultRecommendation vegetableName, [CatalogLookup vegetableName])
           else (case ToString (Number_toString rt) tips of
                   Inl e \<Rightarrow> (getDefaultRecommendation vegetableName,
                             [ConsoleError ''Failed to parse LLM response:'',
                              CatalogLookup vegetableName])
                 | Inr t \<Rightarrow> (Reco \<lparr>recipes = [JStr s], nutrition = nut, storageTips = t\<rparr>, [])))"
  using assms
  by (simp add: parseRecommendation_def try_body_def check_parsed_def isPlaceholder_def
      recipes_check_def split: sum.splits)

text \<open>An instance: the bare string \<^verbatim>\<open>nama resep 1\<close> holds both markers and is
  accepted.\<close>

theorem bare_string_marker_accepted:
  "match_braces (clean_response bare_string_text) = Some bare_string_text
   \<and> JSON_parse (fixed_runtime [(bare_string_text, bare_string_json)]
                   (ollama_answer bare_string_text) no_classifier)
        bare_string_text = Some bare_string_json
   \<and> get_prop bare_string_json ''recipes'' = Inr (JStr ''nama resep 1'')
   \<and> ''nama resep 1'' \<noteq> []
   \<and> get_prop bare_string_json ''nutrition'' = Inr (JObj [(''calories'', JStr ''41 kkal/100g'')])
   \<and> truthy (JObj [(''calories'', JStr ''41 kkal/100g'')])
   \<and> get_prop bare_string_json ''storageTips'' = Inr (JStr ''Simpan di kulkas'')
   \<and> truthy (JStr ''Simpan di kulkas'')
   \<and> includes_str (toLowerCase ''nama resep 1'') ''nama resep''
   \<and> includes_str (toLowerCase ''nama resep 1'') ''resep 1''
   \<and> parseRecommendation
        (fixed_runtime [(bare_string_text, bare_string_json)]
           (ollama_answer bare_string_text) no_classifier)
        (JStr bare_string_text) ''Carrot''
      = (Reco \<lparr>recipes = [JStr ''nama resep 1''],
               nutrition = JObj [(''calories'', JStr ''41 kkal/100g'')],
               storageTips = ''Simpan di kulkas''\<rparr>, [])"
proof -
  let ?rt = "fixed_runtime [(bare_string_text, bare_string_json)]
               (ollama_answer bare_string_text) no_classifier"
  let ?nut = "JObj [(''calories'', JStr ''41 kkal/100g'')]"
  have h1: "match_braces (clean_response bare_string_text) = Some bare_string_text"
    by (simp add: clean_response_def trim_def is_space_def match_braces_def newline_def
        skip_newline_def bare_string_text_def)
  have h2: "JSON_parse ?rt bare_string_text = Some bare_string_json"
    by (simp add: fixed_runtime_def)
  have h3: "get_prop bare_string_json ''recipes'' = Inr (JStr ''nama resep 1'')"
    by (simp add: bare_string_json_def)
  have h4: "''nama resep 1'' \<noteq> []" by simp
  have h5: "get_prop bare_string_json ''nutrition'' = Inr ?nut"
    by (simp add: bare_string_json_def)
  have h6: "truthy ?nut" by simp
  have h7: "get_prop bare_string_json ''storageTips'' = Inr (JStr ''Simpan di kulkas'')"
    by (simp add: bare_string_json_def)
  have h8: "truthy (JStr ''Simpan di kulkas'')" by simp
  have m: "includes_str (toLowerCase ''nama resep 1'') ''nama resep''"
     "includes_str (toLowerCase ''nama resep 1'') ''resep 1''"
    by (simp_all add: toLowerCase_def toLowerChar_def)
  have cal: "calories_check ?nut = Inr False"
    by (simp add: calories_check_def)
  from bare_string_recipes_unchecked[OF h1 h2 h3 h4 h5 h6 h7 h8, of "''Carrot''"] cal
  have "parseRecommendation ?rt (JStr bare_string_text) ''Carrot''
      = (Reco \<lparr>recipes = [JStr ''nama resep 1''], nutrition = ?nut,
               storageTips = ''Simpan di kulkas''\<rparr>, [])"
    by simp
  with h1 h2 h3 h4 h5 h6 h7 h8 m show ?thesis by blast
qed

section \<open>The unknown-subject sentinel\<close>

text \<open>
  Claim C5. For the subject label \<^verbatim>\<open>'Unknown vegetable'\<close>, \<^verbatim>\<open>getLLMRecommendation\<close>
  returns the degraded fallback recommendation, whose nutrition has the field
  \<^verbatim>\<open>info\<close> and none of \<^verbatim>\<open>calories\<close>, \<^verbatim>\<open>vitamins\<close>, \<^verbatim>\<open>benefits\<close>. The run
  leaves no event: no catalog lookup, no generation request, whatever the configuration
  and whatever the backend would have answered.
\<close>

theorem unknown_vegetable_short_circuit:
  "getLLMRecommendation pe rt ''Unknown vegetable'' = (Reco getFallbackRecommendation, [])
   \<and> info_shape (nutrition getFallbackRecommendation)
   \<and> \<not> structured_shape (nutrition getFallbackRecommendation)"
  by (simp add: getLLMRecommendation_def getFallbackRecommendation_def info_shape_def
      structured_shape_def)

section \<open>Error responses\<close>

text \<open>Whatever error reaches the error middlewares, the first of them answers it, with
  one of four status codes and a body \<^verbatim>\<open>{error: ...}\<close>.\<close>

lemma chain_is_errorHandler:
  "Responded (run_error_chain (error_middlewares pe) err) = errorHandler pe err"
  by (simp add: error_middlewares_def errorHandler_def)

lemma chain_status:
  "status (run_error_chain (error_middlewares pe) err) \<in> {400, 500, 502, 504}
   \<and> (\<exists>m. body (run_error_chain (error_middlewares pe) err) = ErrorBody m)"
  by (simp add: error_middlewares_def errorHandler_def)

subsection \<open>Uploads over the size limit\<close>

text \<open>
  Claim C3. An upload of more than 10MB is to be rejected with status 413 before any
  backend is called. No backend is called and nothing is stored, but the status is 500:
  the upload error goes to \<^verbatim>\<open>errorHandler\<close>, registered first, which knows no such
  error and answers 500; the middleware that would answer 413 is registered after it and
  is never reached.
\<close>

theorem oversize_upload_answered_500:
  assumes "size f > 10 * 1024 * 1024"
  shows "status (fst (post_predict pe rt d fr (Some f))) = 500
    \<and> status (fst (post_predict pe rt d fr (Some f))) \<noteq> 413
    \<and> snd (post_predict pe rt d fr (Some f)) = (d, [])"
  using assms
  by (simp add: post_predict_def upload_single_def error_middlewares_def errorHandler_def)

text \<open>An instance: a JPEG of 10MB and one byte.\<close>

theorem oversize_upload_example:
  "size big_file > 10 * 1024 * 1024
   \<and> fst (post_predict ollama_env
            (fixed_runtime [] (Inl timeout_error) (Inr carrot_prediction))
            None sample_fresh (Some big_file))
       = \<lparr>status = 500, body = ErrorBody ''File too large''\<rparr>
   \<and> snd (post_predict ollama_env
            (fixed_runtime [] (Inl timeout_error) (Inr carrot_prediction))
            None sample_fresh (Some big_file))
       = (None, [])"
proof -
  have h: "size big_file > 10 * 1024 * 1024" by (simp add: big_file_def)
  have v: "fst (post_predict ollama_env
              (fixed_runtime [] (Inl timeout_error) (Inr carrot_prediction))
              None sample_fresh (Some big_file))
       = \<lparr>status = 500, body = ErrorBody ''File too large''\<rparr>"
    by (simp add: post_predict_def upload_single_def allowedTypes_def error_middlewares_def
        errorHandler_def big_file_def ollama_env_def)
  from oversize_upload_answered_500[OF h] h v show ?thesis by blast
qed

text \<open>Had the two error middlewares been registered in the other order, the answer
  would have been 413.\<close>

lemma oversize_upload_other_order:
  assumes "mimetype f \<in> set allowedTypes" and "size f > 10 * 1024 * 1024"
  shows "\<exists>err. upload_single (Some f) = Inl err
     \<and> run_error_chain [multerErrorHandler, errorHandler pe] err
         = \<lparr>status = 413, body = ErrorBody ''File size exceeds 10MB limit''\<rparr>"
  using assms by (simp add: upload_single_def multerErrorHandler_def)

subsection \<open>Failure of the classification request\<close>

text \<open>
  Claim C8 says that a failed classification request is answered 502 on a refused
  connection, 502 on an exceeded deadline and 500 on any other transport error. The
  deadline is answered otherwise: the time-out error of the HTTP client is passed to
  \<^verbatim>\<open>errorHandler\<close>, which answers 504.
\<close>

theorem classification_timeout_is_504:
  "upload_single (Some jpeg_file) = Inr (Some jpeg_file)
   \<and> ml_post (fixed_runtime [] (Inl timeout_error) (Inl timeout_error)) jpeg_file
       = Inl timeout_error
   \<and> code timeout_error = Some ''ECONNABORTED''
   \<and> post_predict ollama_env (fixed_runtime [] (Inl timeout_error) (Inl timeout_error))
        None sample_fresh (Some jpeg_file)
       = (\<lparr>status = 504, body = ErrorBody ''Request timeout''\<rparr>, None,
          [ClassificationRequest ''wortel.jpg''])"
  by (simp add: post_predict_def predictHandler_def finish_def error_middlewares_def
      errorHandler_def upload_single_def allowedTypes_def fixed_runtime_def jpeg_file_def
      timeout_error_def)

text \<open>
  Claim C8, amended. When the classification request fails, the answer is 502 with
  \<^verbatim>\<open>{error: 'ML service unavailable'}\<close> on a refused connection, 504 with
  \<^verbatim>\<open>{error: 'Request timeout'}\<close> on an exceeded deadline (error code
  \<^verbatim>\<open>ECONNABORTED\<close>), and 500 with an \<^verbatim>\<open>{error: ...}\<close> body on any other error,
  provided the error is not named \<^verbatim>\<open>ValidationError\<close>, its message does not contain
  \<^verbatim>\<open>timeout\<close> and its code does not begin with \<^verbatim>\<open>23\<close>.
\<close>

theorem classification_failure_statuses:
  assumes "upload_single (Some f) = Inr (Some f)" and "ml_post rt f = Inl err"
  shows "(code err = Some ''ECONNREFUSED'' \<longrightarrow>
            fst (post_predict pe rt d fr (Some f))
              = \<lparr>status = 502, body = ErrorBody ''ML service unavailable''\<rparr>)
    \<and> (code err = Some ''ECONNABORTED'' \<and> name err \<noteq> ''ValidationError'' \<longrightarrow>
            fst (post_predict pe rt d fr (Some f))
              = \<lparr>status = 504, body = ErrorBody ''Request timeout''\<rparr>)
    \<and> (code err \<noteq> Some ''ECONNREFUSED'' \<and> code err \<noteq> Some ''ECONNABORTED''
        \<and> name err \<noteq> ''ValidationError'' \<and> \<not> includes_str (message err) ''timeout''
        \<and> (\<forall>c. code err = Some c \<longrightarrow> \<not> prefix ''23'' c) \<longrightarrow>
            status (fst (post_predict pe rt d fr (Some f))) = 500
            \<and> (\<exists>m. body (fst (post_predict pe rt d fr (Some f))) = ErrorBody m))"
  using assms
  by (auto simp: post_predict_def predictHandler_def finish_def error_middlewares_def
      errorHandler_def split: option.splits)

text \<open>Instances: a refused connection, an exceeded deadline, a reset connection.\<close>

theorem classification_failure_examples:
  "upload_single (Some jpeg_file) = Inr (Some jpeg_file)
   \<and> ml_post (fixed_runtime [] (Inl timeout_error) no_classifier) jpeg_file = no_classifier
   \<and> fst (post_predict ollama_env (fixed_runtime [] (Inl timeout_error) no_classifier)
            None sample_fresh (Some jpeg_file))
       = \<lparr>status = 502, body = ErrorBody ''ML service unavailable''\<rparr>
   \<and> ml_post (fixed_runtime [] (Inl timeout_error) (Inl timeout_error)) jpeg_file
       = Inl timeout_error
   \<and> fst (post_predict ollama_env (fixed_runtime [] (Inl timeout_error) (Inl timeout_error))
            (Some \<lparr>rows = [], fault = None\<rparr>) sample_fresh (Some jpeg_file))
       = \<lparr>status = 504, body = ErrorBody ''Request timeout''\<rparr>
   \<and> ml_post (fixed_runtime [] (Inl timeout_error) (Inl reset_error)) jpeg_file = Inl reset_error
   \<and> status (fst (post_predict ollama_env (fixed_runtime [] (Inl timeout_error) (Inl reset_error))
                    None sample_fresh (Some jpeg_file)))
       = 500"
proof -
  let ?refused = "\<lparr>name = ''AxiosError'', code = Some ''ECONNREFUSED'',
          message = ''connect ECONNREFUSED 127.0.0.1:8000'', multer = False\<rparr>"
  have h1: "upload_single (Some jpeg_file) = Inr (Some jpeg_file)"
    by (simp add: upload_single_def allowedTypes_def jpeg_file_def)
  have h2: "ml_post (fixed_runtime [] (Inl timeout_error) no_classifier) jpeg_file = Inl ?refused"
    by (simp add: fixed_runtime_def no_classifier_def)
  have h3: "ml_post (fixed_runtime [] (Inl timeout_error) (Inl reset_error)) jpeg_file
              = Inl reset_error"
    by (simp add: fixed_runtime_def)
  have h4: "ml_post (fixed_runtime [] (Inl timeout_error) (Inl timeout_error)) jpeg_file
              = Inl timeout_error"
    by (simp add: fixed_runtime_def)
  have a: "fst (post_predict ollama_env (fixed_runtime [] (Inl timeout_error) no_classifier)
                  None sample_fresh (Some jpeg_file))
       = \<lparr>status = 502, body = ErrorBody ''ML service unavailable''\<rparr>"
    using classification_failure_statuses[OF h1 h2, of ollama_env None sample_fresh] by simp
  have b: "status (fst (post_predict ollama_env
                          (fixed_runtime [] (Inl timeout_error) (Inl reset_error))
                          None sample_fresh (Some jpeg_file))) = 500"
    using classification_failure_statuses[OF h1 h3, of ollama_env None sample_fresh]
    by (simp add: reset_error_def)
  have c: "fst (post_predict ollama_env (fixed_runtime [] (Inl timeout_error) (Inl timeout_error))
            (Some \<lparr>rows = [], fault = None\<rparr>) sample_fresh (Some jpeg_file))
       = \<lparr>status = 504, body = ErrorBody ''Request timeout''\<rparr>"
    using classification_failure_statuses[OF h1 h4, of ollama_env
        "Some \<lparr>rows = [], fault = None\<rparr>" sample_fresh]
    by (simp add: timeout_error_def)
  from h1 h2 h3 h4 a b c show ?thesis by (simp add: no_classifier_def)
qed

subsection \<open>Failure of the history store while saving\<close>

text \<open>
  Claim C2 says that an error raised while the record is saved still leaves the caller
  with the computed classification and recommendation. It does not: the image is
  classified as \<^verbatim>\<open>Carrot\<close>, the recommendation is computed (the catalog entry, after
  a time-out), the database ends the connection during the insert, and the caller gets
  status 500 with the database's message.
\<close>

theorem persistence_error_masks_result:
  "ml_post (fixed_runtime [] (Inl timeout_error) (Inr carrot_prediction)) jpeg_file
     = Inr carrot_prediction
   \<and> post_predict ollama_env (fixed_runtime [] (Inl timeout_error) (Inr carrot_prediction))
        (Some \<lparr>rows = [], fault = Some db_shutdown\<rparr>) sample_fresh (Some jpeg_file)
     = (\<lparr>status = 500,
         body = ErrorBody ''terminating connection due to administrator command''\<rparr>,
        Some \<lparr>rows = [], fault = Some db_shutdown\<rparr>,
        [ClassificationRequest ''wortel.jpg'', GenerationRequest Ollama ''Carrot'',
         ConsoleError ''LLM error, using fallback:'', CatalogLookup ''Carrot'',
         StorageQuery ''INSERT''])"
  by (simp add: post_predict_def predictHandler_def finish_def error_middlewares_def
      errorHandler_def upload_single_def allowedTypes_def savePrediction_def skipLLM_def
      getLLMRecommendation_def use_groq_def getOllamaRecommendation_def fixed_runtime_def
      ollama_env_def jpeg_file_def carrot_prediction_def db_shutdown_def)

text \<open>
  Claim C2, amended. When classification has succeeded and a recommendation has been
  computed, an error raised while the record is saved is passed to the error
  middleware: the caller receives its answer, an error status (400, 500, 502 or 504)
  with an \<^verbatim>\<open>{error: ...}\<close> body, instead of the classification and the
  recommendation, and the store is left as it was.
\<close>

theorem persistence_error_goes_to_error_handler:
  assumes "upload_single (Some f) = Inr (Some f)" and "ml_post rt f = Inr p"
    and "fault pl = Some e"
  shows "fst (post_predict pe rt (Some pl) fr (Some f)) = run_error_chain (error_middlewares pe) e
    \<and> status (fst (post_predict pe rt (Some pl) fr (Some f))) \<in> {400, 500, 502, 504}
    \<and> (\<exists>m. body (fst (post_predict pe rt (Some pl) fr (Some f))) = ErrorBody m)
    \<and> fst (snd (post_predict pe rt (Some pl) fr (Some f))) = Some pl"
proof -
  have "fst (post_predict pe rt (Some pl) fr (Some f)) = run_error_chain (error_middlewares pe) e
    \<and> fst (snd (post_predict pe rt (Some pl) fr (Some f))) = Some pl"
    using assms
    by (simp add: post_predict_def predictHandler_def finish_def savePrediction_def
        split: prod.splits)
  then show ?thesis using chain_status[of pe e] by simp
qed

text \<open>An instance: the database cannot be reached, and the caller gets 502.\<close>

theorem persistence_error_unreachable_db:
  "upload_single (Some jpeg_file) = Inr (Some jpeg_file)
   \<and> ml_post (fixed_runtime [] (Inl timeout_error) (Inr carrot_prediction)) jpeg_file
       = Inr carrot_prediction
   \<and> fault \<lparr>rows = [stored_row], fault = Some db_unreachable\<rparr> = Some db_unreachable
   \<and> fst (post_predict ollama_env (fixed_runtime [] (Inl timeout_error) (Inr carrot_prediction))
        (Some \<lparr>rows = [stored_row], fault = Some db_unreachable\<rparr>) sample_fresh (Some jpeg_file))
     = \<lparr>status = 502, body = ErrorBody ''Service unavailable''\<rparr>"
proof -
  let ?rt = "fixed_runtime [] (Inl timeout_error) (Inr carrot_prediction)"
  let ?pl = "\<lparr>rows = [stored_row], fault = Some db_unreachable\<rparr>"
  have h1: "upload_single (Some jpeg_file) = Inr (Some jpeg_file)"
    by (simp add: upload_single_def allowedTypes_def jpeg_file_def)
  have h2: "ml_post ?rt jpeg_file = Inr carrot_prediction" by (simp add: fixed_runtime_def)
  have h3: "fault ?pl = Some db_unreachable" by simp
  have e: "run_error_chain (error_middlewares ollama_env) db_unreachable
      = \<lparr>status = 502, body = ErrorBody ''Service unavailable''\<rparr>"
    by (simp add: error_middlewares_def errorHandler_def db_unreachable_def)
  from persistence_error_goes_to_error_handler[OF h1 h2 h3, of ollama_env sample_fresh]
    e h1 h2 h3
  show ?thesis by simp
qed

text \<open>When the store answers, or when there is none, the caller gets the result.\<close>

lemma saved_result_returned:
  assumes "upload_single (Some f) = Inr (Some f)" and "ml_post rt f = Inr p"
    and "d = None \<or> (\<exists>pl. d = Some pl \<and> fault pl = None)"
  shows "\<exists>i rec t. fst (post_predict pe rt d fr (Some f))
           = \<lparr>status = 200, body = PredictBody i p rec t\<rparr>"
  using assms
  by (auto simp: post_predict_def predictHandler_def finish_def savePrediction_def Let_def
      split: prod.splits)

section \<open>History without a database\<close>

text \<open>
  Claim C7 says that without a configured database the list is empty and a delete
  reports not found (404) for every well-formed id. The list is empty; the delete is
  answered otherwise: \<^verbatim>\<open>deletePrediction\<close> returns the object \<^verbatim>\<open>{ id }\<close> when
  there is no pool, and the handler reports success.
\<close>

theorem delete_without_pool_succeeds:
  "uuidRegex_test ''123e4567-e89b-12d3-a456-426614174000''
   \<and> delete_history ollama_env None ''123e4567-e89b-12d3-a456-426614174000''
       = (\<lparr>status = 200, body = DeleteBody ''123e4567-e89b-12d3-a456-426614174000''\<rparr>, None, [])"
  by (simp add: uuidRegex_test_def is_hex_def delete_history_def deleteHistory_def
      deletePrediction_def finish_def)

text \<open>
  Claim C7, amended. Without a configured database the history list is the empty
  sequence for every limit and offset, and the delete operation answers every
  well-formed id with success, \<^verbatim>\<open>{success: true, deleted: {id}}\<close>, the id being the
  one of the request; no storage operation takes place.
\<close>

theorem no_pool_list_empty_delete_succeeds:
  "get_history pe None limit_q offset_q = (\<lparr>status = 200, body = HistoryBody []\<rparr>, [])
   \<and> (uuidRegex_test i \<longrightarrow>
        delete_history pe None i = (\<lparr>status = 200, body = DeleteBody i\<rparr>, None, []))"
  by (simp add: get_history_def getHistory_def getPredictions_def finish_def
      delete_history_def deleteHistory_def deletePrediction_def)

theorem no_pool_example:
  "uuidRegex_test ''7d9f3c1e-2a4b-4e6f-8a90-1b2c3d4e5f60''
   \<and> get_history ollama_env None (Some 10) None = (\<lparr>status = 200, body = HistoryBody []\<rparr>, [])
   \<and> delete_history ollama_env None ''7d9f3c1e-2a4b-4e6f-8a90-1b2c3d4e5f60''
       = (\<lparr>status = 200, body = DeleteBody ''7d9f3c1e-2a4b-4e6f-8a90-1b2c3d4e5f60''\<rparr>, None, [])"
proof -
  have h: "uuidRegex_test ''7d9f3c1e-2a4b-4e6f-8a90-1b2c3d4e5f60''"
    by (simp add: uuidRegex_test_def is_hex_def)
  from no_pool_list_empty_delete_succeeds[of ollama_env "Some 10" None
      "''7d9f3c1e-2a4b-4e6f-8a90-1b2c3d4e5f60''"] h
  show ?thesis by simp
qed

section \<open>Deleting a history record\<close>

text \<open>With a pool whose query succeeds: a malformed id, an id that no row carries, an
  id that a row carries.\<close>

lemma delete_with_pool:
  "(\<not> uuidRegex_test i \<longrightarrow>
      delete_history pe d i = (\<lparr>status = 400, body = ErrorBody ''Invalid ID format''\<rparr>, d, []))
   \<and> (uuidRegex_test i \<and> fault p = None \<and> (\<forall>r \<in> set (rows p). \<not> uuid_eq (row_id r) i) \<longrightarrow>
      delete_history pe (Some p) i =
        (\<lparr>status = 404, body = ErrorBody ''Prediction not found''\<rparr>, Some p,
         [StorageQuery ''DELETE'']))
   \<and> (uuidRegex_test i \<and> fault p = None \<and> r \<in> set (rows p) \<and> uuid_eq (row_id r) i \<longrightarrow>
      (\<exists>r'. r' \<in> set (rows p) \<and> uuid_eq (row_id r') i
         \<and> delete_history pe (Some p) i =
             (\<lparr>status = 200, body = DeleteBody (row_id r')\<rparr>,
              Some (p\<lparr>rows := filter (\<lambda>x. \<not> uuid_eq (row_id x) i) (rows p)\<rparr>),
              [StorageQuery ''DELETE'']))
      \<and> (\<forall>x \<in> set (filter (\<lambda>x. \<not> uuid_eq (row_id x) i) (rows p)). \<not> uuid_eq (row_id x) i))"
proof (intro conjI impI)
  assume "\<not> uuidRegex_test i"
  then show "delete_history pe d i
      = (\<lparr>status = 400, body = ErrorBody ''Invalid ID format''\<rparr>, d, [])"
    by (simp add: delete_history_def deleteHistory_def finish_def)
next
  assume a: "uuidRegex_test i \<and> fault p = None \<and> (\<forall>r \<in> set (rows p). \<not> uuid_eq (row_id r) i)"
  then have none: "filter (\<lambda>r. uuid_eq (row_id r) i) (rows p) = []"
    and all: "filter (\<lambda>r. \<not> uuid_eq (row_id r) i) (rows p) = rows p"
    by (auto simp: filter_empty_conv filter_id_conv)
  with a show "delete_history pe (Some p) i =
        (\<lparr>status = 404, body = ErrorBody ''Prediction not found''\<rparr>, Some p,
         [StorageQuery ''DELETE''])"
    by (simp add: delete_history_def deleteHistory_def finish_def deletePrediction_def)
next
  assume a: "uuidRegex_test i \<and> fault p = None \<and> r \<in> set (rows p) \<and> uuid_eq (row_id r) i"
  then have "filter (\<lambda>r. uuid_eq (row_id r) i) (rows p) \<noteq> []"
    by (auto simp: filter_empty_conv)
  then obtain r' rest where f: "filter (\<lambda>r. uuid_eq (row_id r) i) (rows p) = r' # rest"
    by (cases "filter (\<lambda>r. uuid_eq (row_id r) i) (rows p)") auto
  then have "r' \<in> set (filter (\<lambda>r. uuid_eq (row_id r) i) (rows p))" by simp
  then have r': "r' \<in> set (rows p)" "uuid_eq (row_id r') i" by auto
  have "delete_history pe (Some p) i =
             (\<lparr>status = 200, body = DeleteBody (row_id r')\<rparr>,
              Some (p\<lparr>rows := filter (\<lambda>x. \<not> uuid_eq (row_id x) i) (rows p)\<rparr>),
              [StorageQuery ''DELETE''])"
    using a f by (simp add: delete_history_def deleteHistory_def finish_def deletePrediction_def)
  with r' show "\<exists>r'. r' \<in> set (rows p) \<and> uuid_eq (row_id r') i
         \<and> delete_history pe (Some p) i =
             (\<lparr>status = 200, body = DeleteBody (row_id r')\<rparr>,
              Some (p\<lparr>rows := filter (\<lambda>x. \<not> uuid_eq (row_id x) i) (rows p)\<rparr>),
              [StorageQuery ''DELETE''])"
    by blast
next
  show "\<forall>x \<in> set (filter (\<lambda>x. \<not> uuid_eq (row_id x) i) (rows p)). \<not> uuid_eq (row_id x) i"
    by simp
qed

text \<open>
  Claim C9 says that a well-formed id absent from storage is answered 404. Without a
  configured database, where no id is stored, the answer is success.
\<close>

theorem delete_absent_id_without_pool:
  "uuidRegex_test ''0f8fad5b-d9cb-469f-a165-70867728950e''
   \<and> delete_history ollama_env None ''0f8fad5b-d9cb-469f-a165-70867728950e''
       = (\<lparr>status = 200, body = DeleteBody ''0f8fad5b-d9cb-469f-a165-70867728950e''\<rparr>, None, [])"
  by (simp add: uuidRegex_test_def is_hex_def delete_history_def deleteHistory_def
      deletePrediction_def finish_def)

text \<open>
  Claim C9, amended. An id that is not of UUID syntax is answered 400 and no storage
  operation takes place, whatever the store. With a configured database whose query
  succeeds, a well-formed id that no row carries is answered 404 with an
  \<^verbatim>\<open>{error: ...}\<close> body and the store is unchanged, and a well-formed id that a row
  carries is answered \<^verbatim>\<open>{success: true, deleted: {id}}\<close> with the id of such a row,
  after which no row carries the id. Without a configured database every well-formed id
  is answered \<^verbatim>\<open>{success: true, deleted: {id}}\<close> with the id of the request. When
  the query fails, the error goes to the error middleware and the store is unchanged.
\<close>

theorem delete_history_cases:
  "(\<not> uuidRegex_test i \<longrightarrow>
      delete_history pe d i = (\<lparr>status = 400, body = ErrorBody ''Invalid ID format''\<rparr>, d, []))
   \<and> (uuidRegex_test i \<and> fault p = None \<and> (\<forall>r \<in> set (rows p). \<not> uuid_eq (row_id r) i) \<longrightarrow>
      delete_history pe (Some p) i =
        (\<lparr>status = 404, body = ErrorBody ''Prediction not found''\<rparr>, Some p,
         [StorageQuery ''DELETE'']))
   \<and> (uuidRegex_test i \<and> fault p = None \<and> r \<in> set (rows p) \<and> uuid_eq (row_id r) i \<longrightarrow>
      (\<exists>r'. r' \<in> set (rows p) \<and> uuid_eq (row_id r') i
         \<and> delete_history pe (Some p) i =
             (\<lparr>status = 200, body = DeleteBody (row_id r')\<rparr>,
              Some (p\<lparr>rows := filter (\<lambda>x. \<not> uuid_eq (row_id x) i) (rows p)\<rparr>),
              [StorageQuery ''DELETE'']))
      \<and> (\<forall>x \<in> set (filter (\<lambda>x. \<not> uuid_eq (row_id x) i) (rows p)). \<not> uuid_eq (row_id x) i))
   \<and> (uuidRegex_test i \<longrightarrow>
      delete_history pe None i = (\<lparr>status = 200, body = DeleteBody i\<rparr>, None, []))
   \<and> (uuidRegex_test i \<and> fault p = Some e \<longrightarrow>
      delete_history pe (Some p) i =
        (run_error_chain (error_middlewares pe) e, Some p, [StorageQuery ''DELETE'']))"
proof -
  have nopool: "uuidRegex_test i \<longrightarrow>
      delete_history pe None i = (\<lparr>status = 200, body = DeleteBody i\<rparr>, None, [])"
    by (simp add: delete_history_def deleteHistory_def deletePrediction_def finish_def)
  have failing: "uuidRegex_test i \<and> fault p = Some e \<longrightarrow>
      delete_history pe (Some p) i =
        (run_error_chain (error_middlewares pe) e, Some p, [StorageQuery ''DELETE''])"
    by (simp add: delete_history_def deleteHistory_def deletePrediction_def finish_def)
  from delete_with_pool[of i pe d p r] nopool failing show ?thesis by blast
qed

text \<open>Instances, on a store that holds one row: an id that is no UUID, a UUID that no
  row carries, and the id of the row, written in capitals; then a UUID without a
  database, and a UUID with a database that ends the connection.\<close>

theorem delete_history_examples:
  "\<not> uuidRegex_test ''42; DROP TABLE predictions''
   \<and> delete_history ollama_env (Some \<lparr>rows = [stored_row], fault = None\<rparr>)
        ''42; DROP TABLE predictions''
       = (\<lparr>status = 400, body = ErrorBody ''Invalid ID format''\<rparr>,
          Some \<lparr>rows = [stored_row], fault = None\<rparr>, [])
   \<and> uuidRegex_test ''123e4567-e89b-12d3-a456-426614174000''
   \<and> delete_history ollama_env (Some \<lparr>rows = [stored_row], fault = None\<rparr>)
        ''123e4567-e89b-12d3-a456-426614174000''
       = (\<lparr>status = 404, body = ErrorBody ''Prediction not found''\<rparr>,
          Some \<lparr>rows = [stored_row], fault = None\<rparr>, [StorageQuery ''DELETE''])
   \<and> uuidRegex_test ''7D9F3C1E-2A4B-4E6F-8A90-1B2C3D4E5F60''
   \<and> delete_history ollama_env (Some \<lparr>rows = [stored_row], fault = None\<rparr>)
        ''7D9F3C1E-2A4B-4E6F-8A90-1B2C3D4E5F60''
       = (\<lparr>status = 200, body = DeleteBody ''7d9f3c1e-2a4b-4e6f-8a90-1b2c3d4e5f60''\<rparr>,
          Some \<lparr>rows = [], fault = None\<rparr>, [StorageQuery ''DELETE''])
   \<and> delete_history ollama_env None ''123e4567-e89b-12d3-a456-426614174000''
       = (\<lparr>status = 200, body = DeleteBody ''123e4567-e89b-12d3-a456-426614174000''\<rparr>, None, [])
   \<and> fault \<lparr>rows = [stored_row], fault = Some db_shutdown\<rparr> = Some db_shutdown
   \<and> delete_history ollama_env (Some \<lparr>rows = [stored_row], fault = Some db_shutdown\<rparr>)
        ''123e4567-e89b-12d3-a456-426614174000''
       = (\<lparr>status = 500,
           body = ErrorBody ''terminating connection due to administrator command''\<rparr>,
          Some \<lparr>rows = [stored_row], fault = Some db_shutdown\<rparr>, [StorageQuery ''DELETE''])"
proof -
  let ?p = "\<lparr>rows = [stored_row], fault = None\<rparr>"
  let ?q = "\<lparr>rows = [stored_row], fault = Some db_shutdown\<rparr>"
  have bad: "\<not> uuidRegex_test ''42; DROP TABLE predictions''"
    by (simp add: uuidRegex_test_def is_hex_def)
  have good1: "uuidRegex_test ''123e4567-e89b-12d3-a456-426614174000''"
    by (simp add: uuidRegex_test_def is_hex_def)
  have good2: "uuidRegex_test ''7D9F3C1E-2A4B-4E6F-8A90-1B2C3D4E5F60''"
    by (simp add: uuidRegex_test_def is_hex_def)
  have absent: "\<forall>r \<in> set (rows ?p).
      \<not> uuid_eq (row_id r) ''123e4567-e89b-12d3-a456-426614174000''"
    by (simp add: uuid_eq_def stored_row_def toLowerCase_def toLowerChar_def)
  have present: "stored_row \<in> set (rows ?p)"
      "uuid_eq (row_id stored_row) ''7D9F3C1E-2A4B-4E6F-8A90-1B2C3D4E5F60''"
    by (simp_all add: uuid_eq_def stored_row_def toLowerCase_def toLowerChar_def)
  have a: "delete_history ollama_env (Some ?p) ''42; DROP TABLE predictions''
       = (\<lparr>status = 400, body = ErrorBody ''Invalid ID format''\<rparr>, Some ?p, [])"
    by (rule delete_history_cases[of "''42; DROP TABLE predictions''" ollama_env "Some ?p"
          ?p stored_row db_shutdown, THEN conjunct1, THEN mp, OF bad])
  have b: "delete_history ollama_env (Some ?p) ''123e4567-e89b-12d3-a456-426614174000''
       = (\<lparr>status = 404, body = ErrorBody ''Prediction not found''\<rparr>, Some ?p,
          [StorageQuery ''DELETE''])"
  proof -
    have pre: "uuidRegex_test ''123e4567-e89b-12d3-a456-426614174000'' \<and> fault ?p = None
        \<and> (\<forall>r \<in> set (rows ?p). \<not> uuid_eq (row_id r) ''123e4567-e89b-12d3-a456-426614174000'')"
      using good1 absent by simp
    show ?thesis
      by (rule delete_history_cases[of "''123e4567-e89b-12d3-a456-426614174000''" ollama_env
            "Some ?p" ?p stored_row db_shutdown, THEN conjunct2, THEN conjunct1, THEN mp,
            OF pre])
  qed
  have pres: "uuidRegex_test ''7D9F3C1E-2A4B-4E6F-8A90-1B2C3D4E5F60'' \<and> fault ?p = None
      \<and> stored_row \<in> set (rows ?p)
      \<and> uuid_eq (row_id stored_row) ''7D9F3C1E-2A4B-4E6F-8A90-1B2C3D4E5F60''"
    using good2 present by simp
  note delete_history_cases[of "''7D9F3C1E-2A4B-4E6F-8A90-1B2C3D4E5F60''" ollama_env "Some ?p"
      ?p stored_row db_shutdown, THEN conjunct2, THEN conjunct2, THEN conjunct1, THEN mp,
      OF pres, THEN conjunct1]
  then obtain r' where c: "r' \<in> set (rows ?p)"
      "delete_history ollama_env (Some ?p) ''7D9F3C1E-2A4B-4E6F-8A90-1B2C3D4E5F60''
        = (\<lparr>status = 200, body = DeleteBody (row_id r')\<rparr>,
           Some (?p\<lparr>rows := filter (\<lambda>x. \<not> uuid_eq (row_id x)
                                        ''7D9F3C1E-2A4B-4E6F-8A90-1B2C3D4E5F60'') (rows ?p)\<rparr>),
           [StorageQuery ''DELETE''])"
    by blast
  from c(1) have r': "r' = stored_row" by simp
  have gone: "filter (\<lambda>x. \<not> uuid_eq (row_id x) ''7D9F3C1E-2A4B-4E6F-8A90-1B2C3D4E5F60'')
                (rows ?p) = []"
    using present(2) by simp
  have d: "delete_history ollama_env (Some ?p) ''7D9F3C1E-2A4B-4E6F-8A90-1B2C3D4E5F60''
       = (\<lparr>status = 200, body = DeleteBody ''7d9f3c1e-2a4b-4e6f-8a90-1b2c3d4e5f60''\<rparr>,
          Some \<lparr>rows = [], fault = None\<rparr>, [StorageQuery ''DELETE''])"
    using c(2) gone unfolding r' by (simp add: stored_row_def)
  have n: "delete_history ollama_env None ''123e4567-e89b-12d3-a456-426614174000''
       = (\<lparr>status = 200, body = DeleteBody ''123e4567-e89b-12d3-a456-426614174000''\<rparr>, None, [])"
    by (rule delete_history_cases[of "''123e4567-e89b-12d3-a456-426614174000''" ollama_env
          "Some ?p" ?p stored_row db_shutdown, THEN conjunct2, THEN conjunct2, THEN conjunct2,
          THEN conjunct1, THEN mp, OF good1])
  have fq: "uuidRegex_test ''123e4567-e89b-12d3-a456-426614174000'' \<and> fault ?q = Some db_shutdown"
    using good1 by simp
  have chain: "run_error_chain (error_middlewares ollama_env) db_shutdown
      = \<lparr>status = 500,
          body = ErrorBody ''terminating connection due to administrator command''\<rparr>"
    by (simp add: error_middlewares_def errorHandler_def db_shutdown_def ollama_env_def)
  have e: "delete_history ollama_env (Some ?q) ''123e4567-e89b-12d3-a456-426614174000''
       = (\<lparr>status = 500,
           body = ErrorBody ''terminating connection due to administrator command''\<rparr>,
          Some ?q, [StorageQuery ''DELETE''])"
    using delete_history_cases[of "''123e4567-e89b-12d3-a456-426614174000''" ollama_env
          "Some ?q" ?q stored_row db_shutdown, THEN conjunct2, THEN conjunct2, THEN conjunct2,
          THEN conjunct2, THEN mp, OF fq] chain
    by simp
  from bad good1 good2 a b d n e show ?thesis by simp
qed

end
